theory Spec2Isabelle
  imports Complex_Main
begin

section \<open>JavaScript values of a request\<close>

text \<open>
  The controller \<^verbatim>\<open>src/controllers/bookingController.js\<close> reads its inputs from a parsed
  JSON body or from query-string parameters and tests them with \<^verbatim>\<open>!x\<close> and
  \<^verbatim>\<open>x || d\<close>, so what counts is JavaScript truthiness, not presence. A finite number
  is modelled by the rational it denotes (\<open>-0\<close> is \<open>0\<close>). No arithmetic is done on
  request numbers; where the runtime turns a numeral into a number, the rounding to
  binary64, with its overflow to Infinity, is the parameter \<open>rnd\<close> below.
\<close>

datatype jsnum = Fin rat | NaN | PosInf | NegInf

datatype jsval =
    JUndefined
  | JNull
  | JBool bool
  | JNum jsnum
  | JStr string
  | JArr "jsval list"
  | JObj "(string \<times> jsval) list"

text \<open>\<^verbatim>\<open>!!v\<close>: the falsy values are undefined, null, false, 0, NaN and the empty string.\<close>

fun truthy :: "jsval \<Rightarrow> bool" where
  "truthy JUndefined = False"
| "truthy JNull = False"
| "truthy (JBool b) = b"
| "truthy (JNum (Fin q)) = (q \<noteq> 0)"
| "truthy (JNum NaN) = False"
| "truthy (JNum PosInf) = True"
| "truthy (JNum NegInf) = True"
| "truthy (JStr s) = (s \<noteq> [])"
| "truthy (JArr xs) = True"
| "truthy (JObj kvs) = True"

text \<open>\<^verbatim>\<open>a || b\<close> on values.\<close>

definition jsOr :: "jsval \<Rightarrow> jsval \<Rightarrow> jsval" where
  "jsOr a b = (if truthy a then a else b)"

text \<open>
  A field that the clients send as a JSON string (an identifier, a date, a time, a note)
  is a \<open>string option\<close>: \<open>None\<close> when the field is absent or null. It is falsy when
  absent or empty.
\<close>

fun truthyStr :: "string option \<Rightarrow> bool" where
  "truthyStr None = False"
| "truthyStr (Some s) = (s \<noteq> [])"

text \<open>A template literal \<^verbatim>\<open>`${x}`\<close> prints an absent value as \<^verbatim>\<open>undefined\<close>.\<close>

fun template :: "string option \<Rightarrow> string" where
  "template None = ''undefined''"
| "template (Some s) = s"

subsection \<open>ToString, parseInt and parseFloat\<close>

fun joinComma :: "string list \<Rightarrow> string" where
  "joinComma [] = []"
| "joinComma [s] = s"
| "joinComma (s # t # ss) = s @ '','' @ joinComma (t # ss)"

text \<open>
  \<^verbatim>\<open>String(v)\<close>. How a finite number prints (shortest round-trip digits, exponent
  notation beyond \<open>1e21\<close>) is floating-point formatting and is left to the parameter
  \<open>fmt\<close>. An array prints its elements joined by commas, with null and undefined
  printed as nothing.
\<close>

fun toString :: "(rat \<Rightarrow> string) \<Rightarrow> jsval \<Rightarrow> string" where
  "toString fmt JUndefined = ''undefined''"
| "toString fmt JNull = ''null''"
| "toString fmt (JBool b) = (if b then ''true'' else ''false'')"
| "toString fmt (JNum (Fin q)) = fmt q"
| "toString fmt (JNum NaN) = ''NaN''"
| "toString fmt (JNum PosInf) = ''Infinity''"
| "toString fmt (JNum NegInf) = ''-Infinity''"
| "toString fmt (JStr s) = s"
| "toString fmt (JArr xs) =
     joinComma (map (\<lambda>x. if x = JUndefined \<or> x = JNull then [] else toString fmt x) xs)"
| "toString fmt (JObj kvs) = ''[object Object]''"

text \<open>
  White space that \<^verbatim>\<open>parseInt\<close> and \<^verbatim>\<open>parseFloat\<close> skip: tab, line feed, vertical tab,
  form feed, carriage return, space and no-break space (the code points of the 8-bit
  range; the other Unicode spaces are outside \<open>char\<close>).
\<close>

definition isWhiteSpace :: "char \<Rightarrow> bool" where
  "isWhiteSpace c = ((of_char c :: nat) \<in> {9, 10, 11, 12, 13, 32, 160})"

definition isDecDigit :: "char \<Rightarrow> bool" where
  "isDecDigit c = (48 \<le> (of_char c :: nat) \<and> (of_char c :: nat) \<le> 57)"

definition isHexDigit :: "char \<Rightarrow> bool" where
  "isHexDigit c = (isDecDigit c \<or> (65 \<le> (of_char c :: nat) \<and> (of_char c :: nat) \<le> 70) \<or>
     (97 \<le> (of_char c :: nat) \<and> (of_char c :: nat) \<le> 102))"

definition digitValue :: "char \<Rightarrow> nat" where
  "digitValue c =
     (let n = (of_char c :: nat)
      in if 97 \<le> n then n - 87 else if 65 \<le> n then n - 55 else n - 48)"

definition digitsValue :: "nat \<Rightarrow> string \<Rightarrow> nat" where
  "digitsValue radix ds = foldl (\<lambda>acc c. acc * radix + digitValue c) 0 ds"

text \<open>An optional sign in front of a numeral: the factor and the rest of the text.\<close>

fun takeSign :: "string \<Rightarrow> int \<times> string" where
  "takeSign [] = (1, [])"
| "takeSign (c # r) =
     (if c = CHR ''-'' then (-1, r) else if c = CHR ''+'' then (1, r) else (1, c # r))"

text \<open>An optional \<^verbatim>\<open>0x\<close> or \<^verbatim>\<open>0X\<close> prefix selects radix 16.\<close>

fun takeRadix :: "string \<Rightarrow> nat \<times> string" where
  "takeRadix (a # b # r) =
     (if a = CHR ''0'' \<and> (b = CHR ''x'' \<or> b = CHR ''X'') then (16, r) else (10, a # b # r))"
| "takeRadix s = (10, s)"

text \<open>
  \<^verbatim>\<open>parseInt(s)\<close> with no radix argument: leading white space, sign, radix prefix, then
  the longest run of digits; \<open>NaN\<close> when that run is empty. The integer that the digits
  denote is then turned into a number by \<open>rnd\<close>, the runtime's rounding of a
  mathematical value to binary64: the nearest number, and Infinity beyond the range (so
  a numeral of 310 digits gives Infinity, and \<^verbatim>\<open>9007199254740993\<close> gives
  9007199254740992).
\<close>

definition parseIntStr :: "(rat \<Rightarrow> jsnum) \<Rightarrow> string \<Rightarrow> jsnum" where
  "parseIntStr rnd inputString =
     (let (sign, s1) = takeSign (dropWhile isWhiteSpace inputString);
          (radix, s2) = takeRadix s1;
          z = takeWhile (if radix = 16 then isHexDigit else isDecDigit) s2
      in if z = [] then NaN else rnd (of_int (sign * int (digitsValue radix z))))"

definition pow10 :: "int \<Rightarrow> rat" where
  "pow10 e = (if 0 \<le> e then 10 ^ nat e else 1 / 10 ^ nat (- e))"

text \<open>The exponent part \<^verbatim>\<open>e[+-]digits\<close> when it is there and well formed, else 0.\<close>

fun exponentPart :: "string \<Rightarrow> int" where
  "exponentPart [] = 0"
| "exponentPart (c # r) =
     (if c = CHR ''e'' \<or> c = CHR ''E''
      then (let (esign, r') = takeSign r; ds = takeWhile isDecDigit r'
            in if ds = [] then 0 else esign * int (digitsValue 10 ds))
      else 0)"

text \<open>The fraction digits after a decimal point, and the text after them.\<close>

fun fractionPart :: "string \<Rightarrow> string \<times> string" where
  "fractionPart [] = ([], [])"
| "fractionPart (c # r) =
     (if c = CHR ''.'' then (takeWhile isDecDigit r, dropWhile isDecDigit r) else ([], c # r))"

text \<open>
  \<^verbatim>\<open>parseFloat(s)\<close>: leading white space, then the longest prefix that is a decimal
  literal (sign, \<^verbatim>\<open>Infinity\<close> or digits with an optional fraction and exponent);
  \<open>NaN\<close> when there is none. The value of the literal is turned into a number by
  \<open>rnd\<close>, as for \<^verbatim>\<open>parseInt\<close> (so \<^verbatim>\<open>1e400\<close> gives Infinity).
\<close>

definition parseFloatStr :: "(rat \<Rightarrow> jsnum) \<Rightarrow> string \<Rightarrow> jsnum" where
  "parseFloatStr rnd inputString =
     (let (sign, s1) = takeSign (dropWhile isWhiteSpace inputString)
      in if take 8 s1 = ''Infinity'' then (if sign < 0 then NegInf else PosInf)
         else (let ip = takeWhile isDecDigit s1;
                   (fp, rest) = fractionPart (dropWhile isDecDigit s1)
               in if ip = [] \<and> fp = [] then NaN
                  else rnd (of_int sign * of_nat (digitsValue 10 (ip @ fp))
                            * pow10 (exponentPart rest - int (length fp)))))"

definition parseInt :: "(rat \<Rightarrow> string) \<Rightarrow> (rat \<Rightarrow> jsnum) \<Rightarrow> jsval \<Rightarrow> jsnum" where
  "parseInt fmt rnd v = parseIntStr rnd (toString fmt v)"

definition parseFloat :: "(rat \<Rightarrow> string) \<Rightarrow> (rat \<Rightarrow> jsnum) \<Rightarrow> jsval \<Rightarrow> jsnum" where
  "parseFloat fmt rnd v = parseFloatStr rnd (toString fmt v)"

section \<open>The data model\<close>

text \<open>
  Modelled from the spec: the Booking, Ground, User and Payment schemas
  (\<^verbatim>\<open>models/*.js\<close>) are not among the sources. The stored booking has the fields of
  section 3 of the specification, typed as it says: identifiers and wall-clock times are
  strings, \<open>bookingDate\<close> is a date (milliseconds since the epoch), \<open>groundSlot\<close> a
  number, \<open>status\<close> one of four values. \<open>duration\<close> and \<open>amount\<close> hold what
  \<^verbatim>\<open>parseInt\<close> and \<^verbatim>\<open>parseFloat\<close> returned. Three fields are renamed: \<^verbatim>\<open>_id\<close> is
  \<open>bookingId\<close>, \<^verbatim>\<open>type\<close> is \<open>btype\<close> and \<^verbatim>\<open>notes\<close> is \<open>bookingNotes\<close>.
\<close>

datatype status = Pending | Confirmed | Completed | Cancelled

record booking =
  bookingId :: string
  customerId :: string
  btype :: string
  groundId :: string
  groundSlot :: rat
  bookingDate :: int
  startTime :: string
  endTime :: string
  duration :: jsnum
  bookingType :: string
  specialRequirements :: "string list"
  bookingNotes :: string
  amount :: jsnum
  status :: status
  paymentId :: "string option"

record ground =
  groundName :: string

record user =
  firstName :: string
  lastName :: string

record payment =
  paymentStatus :: string

text \<open>
  The collections. Bookings are a list in the order the store returns them
  (\<^verbatim>\<open>conflictingBookings[0]\<close> is its first match); the others are looked up by
  identifier only.
\<close>

record db =
  bookings :: "booking list"
  grounds :: "string \<rightharpoonup> ground"
  users :: "string \<rightharpoonup> user"
  payments :: "string \<rightharpoonup> payment"

text \<open>
  What the controller takes from its environment: the clock, the server's time zone (a
  fixed offset from UTC in milliseconds), the runtime's \<^verbatim>\<open>Date\<close> parsing and printing,
  its printing of numbers and its rounding of a mathematical value to a number
  (binary64: the nearest number, Infinity beyond the range), and two services of the
  store: the schema's conversion of a request value to a slot number (it fails on a
  value that is no number) and the identifier given to a new document. \<open>dateParse\<close> is
  \<open>None\<close> for an invalid date.
\<close>

record runtime =
  now :: int
  tzOffset :: int
  dateParse :: "string \<Rightarrow> int option"
  toISOString :: "int \<Rightarrow> string"
  numberToString :: "rat \<Rightarrow> string"
  toNumber :: "rat \<Rightarrow> jsnum"
  castNumber :: "jsval \<Rightarrow> rat option"
  newObjectId :: "booking list \<Rightarrow> string"

subsection \<open>Requests and responses\<close>

text \<open>The body of \<^verbatim>\<open>POST /api/bookings\<close>, as \<^verbatim>\<open>createBooking\<close> destructures it.\<close>

record create_body =
  req_customerId :: "string option"
  req_groundId :: "string option"
  req_groundSlot :: jsval
  req_bookingDate :: "string option"
  req_startTime :: "string option"
  req_endTime :: "string option"
  req_duration :: jsval
  req_bookingType :: "string option"
  req_specialRequirements :: "string list option"
  req_notes :: "string option"
  req_amount :: jsval

text \<open>The query of \<^verbatim>\<open>GET /api/bookings/check-availability\<close>: every parameter is text.\<close>

record availability_query =
  q_groundId :: "string option"
  q_groundSlot :: "string option"
  q_bookingDate :: "string option"
  q_startTime :: "string option"
  q_endTime :: "string option"

text \<open>The body of \<^verbatim>\<open>PUT /api/bookings/:id\<close>: the fields to overwrite.\<close>

record booking_patch =
  p_customerId :: "string option"
  p_groundId :: "string option"
  p_groundSlot :: "rat option"
  p_bookingDate :: "int option"
  p_startTime :: "string option"
  p_endTime :: "string option"
  p_duration :: "jsnum option"
  p_bookingType :: "string option"
  p_specialRequirements :: "string list option"
  p_notes :: "string option"
  p_amount :: "jsnum option"
  p_status :: "status option"
  p_paymentId :: "string option"

record existing_booking =
  eb_startTime :: string
  eb_endTime :: string
  eb_bookingType :: string
  bookedBy :: string

record conflict_detail =
  cd_bookingId :: string
  customerName :: string
  cd_startTime :: string
  cd_endTime :: string
  cd_bookingType :: string
  cd_status :: status

text \<open>
  Every response with \<^verbatim>\<open>success: false\<close>. \<open>SlotConflict\<close> carries the requested times of
  its message and the \<^verbatim>\<open>conflictDetails.existingBooking\<close>; \<open>ValidationFailed\<close> and
  \<open>InternalError\<close> are the \<^verbatim>\<open>catch\<close> branches, the second with its message.
\<close>

datatype error =
    MissingFields
  | GroundNotFound
  | CustomerNotFound
  | SlotConflict string string existing_booking
  | PastDateTime
  | TooSoon
  | MissingParameters
  | BookingNotFound
  | CannotModify
  | AlreadyCancelled
  | TooLateToCancel
  | PaymentNotFound
  | PaymentNotSuccessful
  | ValidationFailed
  | InternalError string

fun httpStatus :: "error \<Rightarrow> nat" where
  "httpStatus MissingFields = 400"
| "httpStatus GroundNotFound = 404"
| "httpStatus CustomerNotFound = 404"
| "httpStatus (SlotConflict s e x) = 409"
| "httpStatus PastDateTime = 400"
| "httpStatus TooSoon = 400"
| "httpStatus MissingParameters = 400"
| "httpStatus BookingNotFound = 404"
| "httpStatus CannotModify = 400"
| "httpStatus AlreadyCancelled = 400"
| "httpStatus TooLateToCancel = 400"
| "httpStatus PaymentNotFound = 404"
| "httpStatus PaymentNotSuccessful = 400"
| "httpStatus ValidationFailed = 400"
| "httpStatus (InternalError m) = 500"

fun message :: "error \<Rightarrow> string" where
  "message MissingFields =
     ''Missing required fields: customerId, groundId, bookingDate, startTime, endTime, amount''"
| "message GroundNotFound = ''Ground not found''"
| "message CustomerNotFound = ''Customer not found''"
| "message (SlotConflict s e x) =
     ''This time slot ('' @ s @ '' - '' @ e @
     '') is already booked by another customer. Please choose a different time or date.''"
| "message PastDateTime =
     ''Cannot book ground for past dates or times. Please select a future date and time.''"
| "message TooSoon =
     ''Ground must be booked at least 1 hour in advance. Please select a later time.''"
| "message MissingParameters =
     ''Missing required parameters: groundId, bookingDate, startTime, endTime''"
| "message BookingNotFound = ''Booking not found''"
| "message CannotModify = ''Cannot modify completed or cancelled bookings''"
| "message AlreadyCancelled = ''Booking is already cancelled''"
| "message TooLateToCancel = ''Cannot cancel booking less than 2 hours before start time''"
| "message PaymentNotFound = ''Payment not found''"
| "message PaymentNotSuccessful = ''Payment is not successful''"
| "message ValidationFailed = ''Validation error''"
| "message (InternalError m) = m"

datatype availability = Available | Unavailable "conflict_detail list"

section \<open>The store's operations\<close>

text \<open>\<^verbatim>\<open>Booking.findById\<close>: the document with that identifier, if any.\<close>

fun findById :: "booking list \<Rightarrow> string \<Rightarrow> booking option" where
  "findById [] i = None"
| "findById (b # bs) i = (if bookingId b = i then Some b else findById bs i)"

text \<open>\<^verbatim>\<open>booking.save()\<close>: the document with that identifier is replaced.\<close>

fun save :: "booking \<Rightarrow> booking list \<Rightarrow> booking list" where
  "save b [] = []"
| "save b (x # xs) = (if bookingId x = bookingId b then b # xs else x # save b xs)"

text \<open>
  The store compares two strings code unit by code unit, a proper prefix being smaller;
  this is what \<^verbatim>\<open>$lt\<close> and \<^verbatim>\<open>$gt\<close> do on \<open>startTime\<close> and \<open>endTime\<close>.
\<close>

fun strLess :: "string \<Rightarrow> string \<Rightarrow> bool" where
  "strLess [] [] = False"
| "strLess [] (y # ys) = True"
| "strLess (x # xs) [] = False"
| "strLess (x # xs) (y # ys) = ((of_char x :: nat) < of_char y \<or> (x = y \<and> strLess xs ys))"

text \<open>
  \<^verbatim>\<open>new Date(d).setHours(0, 0, 0, 0)\<close> and \<^verbatim>\<open>new Date(d).setHours(23, 59, 59, 999)\<close>: the
  first and the last millisecond of the local day of \<open>d\<close>.
\<close>

definition startOfDay :: "runtime \<Rightarrow> int \<Rightarrow> int" where
  "startOfDay rt d = d - (d + tzOffset rt) mod 86400000"

definition endOfDay :: "runtime \<Rightarrow> int \<Rightarrow> int" where
  "endOfDay rt d = startOfDay rt d + 86399999"

text \<open>
  The query that \<^verbatim>\<open>createBooking\<close> (lines 62-76) and \<^verbatim>\<open>checkGroundAvailability\<close>
  (lines 490-506) both send. \<open>slot\<close> is the value of \<^verbatim>\<open>groundSlot || 1\<close>. The store
  refuses the query (the call throws) when the slot is no number or the date is invalid.
\<close>

definition conflictingBookings ::
  "runtime \<Rightarrow> booking list \<Rightarrow> string \<Rightarrow> jsval \<Rightarrow> string \<Rightarrow> string \<Rightarrow> string
     \<Rightarrow> booking list option" where
  "conflictingBookings rt bs gId slot bDate sTime eTime =
     (case castNumber rt slot of
        None \<Rightarrow> None
      | Some n \<Rightarrow>
          (case dateParse rt bDate of
             None \<Rightarrow> None
           | Some d \<Rightarrow>
               Some (filter (\<lambda>b. groundId b = gId
                                \<and> groundSlot b = n
                                \<and> startOfDay rt d \<le> bookingDate b
                                \<and> bookingDate b < endOfDay rt d
                                \<and> status b \<noteq> Cancelled
                                \<and> strLess (startTime b) eTime
                                \<and> strLess sTime (endTime b)) bs)))"

text \<open>
  \<^verbatim>\<open>.populate("customerId", "firstName lastName")\<close> followed by
  \<^verbatim>\<open>`${c.firstName} ${c.lastName}`\<close>: a customer that no longer resolves is null, and
  reading its name throws.
\<close>

definition customerDisplayName :: "db \<Rightarrow> booking \<Rightarrow> string option" where
  "customerDisplayName st b =
     (case users st (customerId b) of
        None \<Rightarrow> None
      | Some c \<Rightarrow> Some (firstName c @ '' '' @ lastName c))"

fun strOr :: "string option \<Rightarrow> string \<Rightarrow> string" where
  "strOr None d = d"
| "strOr (Some s) d = (if s = [] then d else s)"

text \<open>An array is truthy even when empty, so only an absent one is replaced.\<close>

fun listOr :: "'a list option \<Rightarrow> 'a list \<Rightarrow> 'a list" where
  "listOr None d = d"
| "listOr (Some xs) d = xs"

text \<open>A comparison with an invalid date (\<open>None\<close>) is false, as with \<open>NaN\<close>.\<close>

fun dateLe :: "int option \<Rightarrow> int \<Rightarrow> bool" where
  "dateLe None t = False"
| "dateLe (Some d) t = (d \<le> t)"

fun dateLt :: "int option \<Rightarrow> int \<Rightarrow> bool" where
  "dateLt None t = False"
| "dateLt (Some d) t = (d < t)"

section \<open>createBooking\<close>

text \<open>The document handed to \<^verbatim>\<open>Booking.create\<close> (lines 124-138).\<close>

definition newBooking ::
  "runtime \<Rightarrow> db \<Rightarrow> create_body \<Rightarrow> string \<Rightarrow> string \<Rightarrow> rat \<Rightarrow> int \<Rightarrow> string \<Rightarrow> string
     \<Rightarrow> booking" where
  "newBooking rt st body cId gId slot d sTime eTime =
     \<lparr> bookingId = newObjectId rt (bookings st),
       customerId = cId,
       btype = ''ground'',
       groundId = gId,
       groundSlot = slot,
       bookingDate = d,
       startTime = sTime,
       endTime = eTime,
       duration = parseInt (numberToString rt) (toNumber rt) (req_duration body),
       bookingType = strOr (req_bookingType body) ''practice'',
       specialRequirements = listOr (req_specialRequirements body) [],
       bookingNotes = strOr (req_notes body) [],
       amount = parseFloat (numberToString rt) (toNumber rt) (req_amount body),
       status = Pending,
       paymentId = None \<rparr>"

text \<open>
  Lines 61-149, once the required fields are there and the ground and the customer
  resolve. The result is the response and the store after the call.

  Modelled from the spec: \<open>duration\<close> and \<open>amount\<close> are number fields (section 3), and
  the store refuses a document in which a number field is \<open>NaN\<close>; \<^verbatim>\<open>Booking.create\<close>
  then throws the validation error that line 153 answers with status 400. The schema's
  other validators and a unique index (line 161) are not modelled: every other document
  is stored as it is.
\<close>

definition createChecked ::
  "runtime \<Rightarrow> db \<Rightarrow> create_body \<Rightarrow> string \<Rightarrow> string \<Rightarrow> string \<Rightarrow> string \<Rightarrow> string
     \<Rightarrow> (error + booking) \<times> db" where
  "createChecked rt st body cId gId bDate sTime eTime =
     (case conflictingBookings rt (bookings st) gId
             (jsOr (req_groundSlot body) (JNum (Fin 1))) bDate sTime eTime of
        None \<Rightarrow> (Inl (InternalError ''Error creating booking''), st)
      | Some (conflictInfo # others) \<Rightarrow>
          (case customerDisplayName st conflictInfo of
             None \<Rightarrow> (Inl (InternalError ''Error creating booking''), st)
           | Some conflictCustomer \<Rightarrow>
               (Inl (SlotConflict sTime eTime
                       \<lparr> eb_startTime = startTime conflictInfo,
                         eb_endTime = endTime conflictInfo,
                         eb_bookingType = bookingType conflictInfo,
                         bookedBy = conflictCustomer \<rparr>), st))
      | Some [] \<Rightarrow>
          (let bookingDateTime = dateParse rt (bDate @ ''T'' @ sTime) in
           if dateLe bookingDateTime (now rt) then (Inl PastDateTime, st)
           else if dateLt bookingDateTime (now rt + 60 * 60 * 1000) then (Inl TooSoon, st)
           else
             (case castNumber rt (jsOr (req_groundSlot body) (JNum (Fin 1))) of
                None \<Rightarrow> (Inl ValidationFailed, st)
              | Some slot \<Rightarrow>
                  (case dateParse rt bDate of
                     None \<Rightarrow> (Inl ValidationFailed, st)
                   | Some d \<Rightarrow>
                       (let booking = newBooking rt st body cId gId slot d sTime eTime
                        in if duration booking = NaN \<or> amount booking = NaN
                           then (Inl ValidationFailed, st)
                           else (Inr booking, st\<lparr>bookings := bookings st @ [booking]\<rparr>))))))"

text \<open>Lines 9-59: the required fields, then the ground and the customer.\<close>

definition createBooking :: "runtime \<Rightarrow> db \<Rightarrow> create_body \<Rightarrow> (error + booking) \<times> db" where
  "createBooking rt st body =
     (if \<not> truthyStr (req_customerId body) \<or>
         \<not> truthyStr (req_groundId body) \<or>
         \<not> truthyStr (req_bookingDate body) \<or>
         \<not> truthyStr (req_startTime body) \<or>
         \<not> truthyStr (req_endTime body) \<or>
         \<not> truthy (req_amount body)
      then (Inl MissingFields, st)
      else
        (case (req_customerId body, req_groundId body, req_bookingDate body,
               req_startTime body, req_endTime body) of
           (Some cId, Some gId, Some bDate, Some sTime, Some eTime) \<Rightarrow>
             (case grounds st gId of
                None \<Rightarrow> (Inl GroundNotFound, st)
              | Some g \<Rightarrow>
                  (case users st cId of
                     None \<Rightarrow> (Inl CustomerNotFound, st)
                   | Some customer \<Rightarrow> createChecked rt st body cId gId bDate sTime eTime))
         | _ \<Rightarrow> (Inl MissingFields, st)))"

section \<open>checkGroundAvailability\<close>

text \<open>\<^verbatim>\<open>groundSlot || 1\<close> on a query parameter: the text when it is not empty.\<close>

fun slotOr :: "string option \<Rightarrow> jsval \<Rightarrow> jsval" where
  "slotOr None d = d"
| "slotOr (Some s) d = (if s = [] then d else JStr s)"

text \<open>Lines 511-518: one entry per conflicting booking; \<open>None\<close> when building it throws.\<close>

fun conflictDetails :: "db \<Rightarrow> booking list \<Rightarrow> conflict_detail list option" where
  "conflictDetails st [] = Some []"
| "conflictDetails st (b # bs) =
     (case customerDisplayName st b of
        None \<Rightarrow> None
      | Some n \<Rightarrow>
          (case conflictDetails st bs of
             None \<Rightarrow> None
           | Some ds \<Rightarrow>
               Some (\<lparr> cd_bookingId = bookingId b,
                       customerName = n,
                       cd_startTime = startTime b,
                       cd_endTime = endTime b,
                       cd_bookingType = bookingType b,
                       cd_status = status b \<rparr> # ds)))"

definition checkGroundAvailability ::
  "runtime \<Rightarrow> db \<Rightarrow> availability_query \<Rightarrow> error + availability" where
  "checkGroundAvailability rt st q =
     (if \<not> truthyStr (q_groundId q) \<or>
         \<not> truthyStr (q_bookingDate q) \<or>
         \<not> truthyStr (q_startTime q) \<or>
         \<not> truthyStr (q_endTime q)
      then Inl MissingParameters
      else
        (case (q_groundId q, q_bookingDate q, q_startTime q, q_endTime q) of
           (Some gId, Some bDate, Some sTime, Some eTime) \<Rightarrow>
             (case conflictingBookings rt (bookings st) gId
                     (slotOr (q_groundSlot q) (JNum (Fin 1))) bDate sTime eTime of
                None \<Rightarrow> Inl (InternalError ''Error checking ground availability'')
              | Some cs \<Rightarrow>
                  if cs = [] then Inr Available
                  else
                    (case conflictDetails st cs of
                       None \<Rightarrow> Inl (InternalError ''Error checking ground availability'')
                     | Some ds \<Rightarrow> Inr (Unavailable ds)))
         | _ \<Rightarrow> Inl MissingParameters))"

section \<open>updateBooking\<close>

fun orKeep :: "'a option \<Rightarrow> 'a \<Rightarrow> 'a" where
  "orKeep None old = old"
| "orKeep (Some v) old = v"

text \<open>\<^verbatim>\<open>findByIdAndUpdate(id, req.body)\<close>: each field of the body overwrites the stored one.\<close>

definition applyPatch :: "booking_patch \<Rightarrow> booking \<Rightarrow> booking" where
  "applyPatch p b =
     b\<lparr> customerId := orKeep (p_customerId p) (customerId b),
        groundId := orKeep (p_groundId p) (groundId b),
        groundSlot := orKeep (p_groundSlot p) (groundSlot b),
        bookingDate := orKeep (p_bookingDate p) (bookingDate b),
        startTime := orKeep (p_startTime p) (startTime b),
        endTime := orKeep (p_endTime p) (endTime b),
        duration := orKeep (p_duration p) (duration b),
        bookingType := orKeep (p_bookingType p) (bookingType b),
        specialRequirements := orKeep (p_specialRequirements p) (specialRequirements b),
        bookingNotes := orKeep (p_notes p) (bookingNotes b),
        amount := orKeep (p_amount p) (amount b),
        status := orKeep (p_status p) (status b),
        paymentId := (case p_paymentId p of None \<Rightarrow> paymentId b | Some v \<Rightarrow> Some v) \<rparr>"

definition updateBooking ::
  "db \<Rightarrow> string \<Rightarrow> booking_patch \<Rightarrow> (error + booking) \<times> db" where
  "updateBooking st i p =
     (case findById (bookings st) i of
        None \<Rightarrow> (Inl BookingNotFound, st)
      | Some booking \<Rightarrow>
          if status booking \<in> set [Completed, Cancelled] then (Inl CannotModify, st)
          else
            (let updatedBooking = applyPatch p booking
             in (Inr updatedBooking, st\<lparr>bookings := save updatedBooking (bookings st)\<rparr>)))"

section \<open>cancelBooking\<close>

text \<open>
  Line 344: the UTC date of \<open>bookingDate\<close> (the text of \<^verbatim>\<open>toISOString()\<close> before its
  \<^verbatim>\<open>T\<close>), then \<^verbatim>\<open>T\<close> and the start time, parsed as a date.
\<close>

definition startDateTime :: "runtime \<Rightarrow> booking \<Rightarrow> int option" where
  "startDateTime rt b =
     dateParse rt (takeWhile (\<lambda>c. c \<noteq> CHR ''T'') (toISOString rt (bookingDate b))
                   @ ''T'' @ startTime b)"

text \<open>
  Line 346: \<^verbatim>\<open>(bookingDateTime - now) / (1000 * 60 * 60)\<close>, a rational here; \<open>None\<close> is
  \<open>NaN\<close>, for which every comparison is false.
\<close>

fun hoursUntil :: "int option \<Rightarrow> int \<Rightarrow> rat option" where
  "hoursUntil None n = None"
| "hoursUntil (Some t) n = Some (of_int (t - n) / (1000 * 60 * 60))"

fun numLess :: "rat option \<Rightarrow> rat \<Rightarrow> bool" where
  "numLess None y = False"
| "numLess (Some x) y = (x < y)"

text \<open>Line 356: the reason goes after the notes, on a line of its own.\<close>

definition cancelledNotes :: "string \<Rightarrow> string option \<Rightarrow> string" where
  "cancelledNotes old reason =
     (if old \<noteq> [] then old @ [CHR 0x0A] @ ''Cancellation reason: '' @ template reason
      else ''Cancellation reason: '' @ template reason)"

definition cancelBooking ::
  "runtime \<Rightarrow> db \<Rightarrow> string \<Rightarrow> string option \<Rightarrow> (error + booking) \<times> db" where
  "cancelBooking rt st i reason =
     (case findById (bookings st) i of
        None \<Rightarrow> (Inl BookingNotFound, st)
      | Some booking \<Rightarrow>
          if status booking = Cancelled then (Inl AlreadyCancelled, st)
          else
            (let hoursUntilBooking = hoursUntil (startDateTime rt booking) (now rt) in
             if numLess hoursUntilBooking 2 \<and> status booking = Confirmed
             then (Inl TooLateToCancel, st)
             else
               (let cancelled = booking\<lparr> status := Cancelled,
                                         bookingNotes := cancelledNotes (bookingNotes booking) reason \<rparr>
                in (Inr cancelled, st\<lparr>bookings := save cancelled (bookings st)\<rparr>))))"

section \<open>confirmBooking\<close>

text \<open>Lines 410-411: the status is set and the booking saved, whatever the status was.\<close>

definition confirmAndSave :: "db \<Rightarrow> booking \<Rightarrow> (error + booking) \<times> db" where
  "confirmAndSave st booking =
     (let confirmed = booking\<lparr>status := Confirmed\<rparr>
      in (Inr confirmed, st\<lparr>bookings := save confirmed (bookings st)\<rparr>))"

definition confirmBooking ::
  "db \<Rightarrow> string \<Rightarrow> string option \<Rightarrow> (error + booking) \<times> db" where
  "confirmBooking st i pId =
     (case findById (bookings st) i of
        None \<Rightarrow> (Inl BookingNotFound, st)
      | Some booking \<Rightarrow>
          if truthyStr pId then
            (case pId of
               None \<Rightarrow> confirmAndSave st booking
             | Some p \<Rightarrow>
                 (case payments st p of
                    None \<Rightarrow> (Inl PaymentNotFound, st)
                  | Some payment \<Rightarrow>
                      if paymentStatus payment \<noteq> ''success''
                      then (Inl PaymentNotSuccessful, st)
                      else confirmAndSave st (booking\<lparr>paymentId := Some p\<rparr>)))
          else confirmAndSave st booking)"

section \<open>A server and a store to compute with\<close>

text \<open>
  A runtime for the examples: a server on UTC whose clock shows 2030-01-01T00:00:00.000Z.
  \<open>exampleDateParse\<close> and \<open>exampleToISOString\<close> give the values of \<^verbatim>\<open>Date\<close> for the
  texts and dates the examples use, \<open>exampleNumberToString\<close> prints the numbers they
  use, and \<open>exampleCastNumber\<close> keeps a number and converts the texts \<^verbatim>\<open>1\<close> and \<^verbatim>\<open>2\<close>.
  \<open>exampleToNumber\<close> is the rounding to binary64 where it needs no rounding table: an
  integer up to \<open>2 ^ 53\<close> in absolute value is a number as it is, and a value from
  \<open>2 ^ 1024\<close> on is Infinity; the examples use no other values, and for those the
  definition answers \<open>NaN\<close>.
\<close>

definition exampleDateParse :: "string \<Rightarrow> int option" where
  "exampleDateParse s =
     map_of [(''2020-01-05T00:00:00.000Z'', 1578182400000),
             (''2030-01-01'', 1893456000000),
             (''2030-01-01T00:30'', 1893457800000),
             (''2030-01-01T09:30'', 1893490200000),
             (''2030-01-05'', 1893801600000),
             (''2030-01-05T08:30'', 1893832200000),
             (''2030-01-05T09:30'', 1893835800000),
             (''2030-01-05T10:00'', 1893837600000)] s"

definition exampleToISOString :: "int \<Rightarrow> string" where
  "exampleToISOString t =
     (if t = 1893456000000 then ''2030-01-01T00:00:00.000Z''
      else if t = 1893801600000 then ''2030-01-05T00:00:00.000Z''
      else [])"

definition exampleNumberToString :: "rat \<Rightarrow> string" where
  "exampleNumberToString q =
     (if q = 0 then ''0'' else if q = 1 then ''1'' else if q = 2 then ''2''
      else if q = 60 then ''60'' else if q = 120 then ''120''
      else if q = 1500 then ''1500'' else [])"

definition exampleToNumber :: "rat \<Rightarrow> jsnum" where
  "exampleToNumber q =
     (if 2 ^ 1024 \<le> q then PosInf
      else if q \<le> - (2 ^ 1024) then NegInf
      else if q = of_int \<lfloor>q\<rfloor> \<and> \<bar>q\<bar> \<le> 2 ^ 53 then Fin q
      else NaN)"

fun exampleCastNumber :: "jsval \<Rightarrow> rat option" where
  "exampleCastNumber (JNum (Fin q)) = Some q"
| "exampleCastNumber (JStr s) =
     (if s = ''1'' then Some 1 else if s = ''2'' then Some 2 else None)"
| "exampleCastNumber v = None"

definition exampleRuntime :: runtime where
  "exampleRuntime =
     \<lparr> now = 1893456000000,
       tzOffset = 0,
       dateParse = exampleDateParse,
       toISOString = exampleToISOString,
       numberToString = exampleNumberToString,
       toNumber = exampleToNumber,
       castNumber = exampleCastNumber,
       newObjectId = (\<lambda>bs. ''b5'') \<rparr>"

text \<open>
  Four stored bookings of ground \<open>g1\<close>, slot 1: one pending on 2030-01-05 from 09:30 to
  10:30, one confirmed on 2030-01-01 from 00:30 (half an hour after the clock) with a
  note, one cancelled and one completed.
\<close>

definition pendingBooking :: booking where
  "pendingBooking =
     \<lparr> bookingId = ''b1'', customerId = ''u1'', btype = ''ground'', groundId = ''g1'',
       groundSlot = 1, bookingDate = 1893801600000, startTime = ''09:30'',
       endTime = ''10:30'', duration = Fin 60, bookingType = ''practice'',
       specialRequirements = [], bookingNotes = [], amount = Fin 1500, status = Pending,
       paymentId = None \<rparr>"

definition confirmedBooking :: booking where
  "confirmedBooking =
     \<lparr> bookingId = ''b2'', customerId = ''u1'', btype = ''ground'', groundId = ''g1'',
       groundSlot = 1, bookingDate = 1893456000000, startTime = ''00:30'',
       endTime = ''01:30'', duration = Fin 60, bookingType = ''match'',
       specialRequirements = [], bookingNotes = ''bring cones'', amount = Fin 1500,
       status = Confirmed, paymentId = Some ''p1'' \<rparr>"

definition cancelledBooking :: booking where
  "cancelledBooking =
     \<lparr> bookingId = ''b3'', customerId = ''u1'', btype = ''ground'', groundId = ''g1'',
       groundSlot = 1, bookingDate = 1893801600000, startTime = ''14:00'',
       endTime = ''15:00'', duration = Fin 60, bookingType = ''practice'',
       specialRequirements = [], bookingNotes = [], amount = Fin 1500, status = Cancelled,
       paymentId = None \<rparr>"

definition completedBooking :: booking where
  "completedBooking =
     \<lparr> bookingId = ''b4'', customerId = ''u1'', btype = ''ground'', groundId = ''g1'',
       groundSlot = 1, bookingDate = 1893801600000, startTime = ''16:00'',
       endTime = ''17:00'', duration = Fin 60, bookingType = ''practice'',
       specialRequirements = [], bookingNotes = [], amount = Fin 1500, status = Completed,
       paymentId = Some ''p1'' \<rparr>"

definition exampleDb :: db where
  "exampleDb =
     \<lparr> bookings = [pendingBooking, confirmedBooking, cancelledBooking, completedBooking],
       grounds = [''g1'' \<mapsto> \<lparr>groundName = ''Main ground''\<rparr>],
       users = [''u1'' \<mapsto> \<lparr>firstName = ''Ann'', lastName = ''Lee''\<rparr>],
       payments = [''p1'' \<mapsto> \<lparr>paymentStatus = ''success''\<rparr>,
                   ''p2'' \<mapsto> \<lparr>paymentStatus = ''failed''\<rparr>] \<rparr>"

text \<open>
  A well-formed request: ground \<open>g1\<close> on 2030-01-05 from 08:30 to 09:30, ending where
  \<open>pendingBooking\<close> starts. The examples below vary one field of it at a time.
\<close>

definition exampleBody :: create_body where
  "exampleBody =
     \<lparr> req_customerId = Some ''u1'', req_groundId = Some ''g1'',
       req_groundSlot = JNum (Fin 1), req_bookingDate = Some ''2030-01-05'',
       req_startTime = Some ''08:30'', req_endTime = Some ''09:30'',
       req_duration = JNum (Fin 60), req_bookingType = Some ''practice'',
       req_specialRequirements = Some [''lights''], req_notes = None,
       req_amount = JNum (Fin 1500) \<rparr>"

definition exampleQuery :: availability_query where
  "exampleQuery =
     \<lparr> q_groundId = Some ''g1'', q_groundSlot = Some ''1'',
       q_bookingDate = Some ''2030-01-05'', q_startTime = Some ''08:30'',
       q_endTime = Some ''09:30'' \<rparr>"

section \<open>Vocabulary of the claims\<close>

text \<open>
  A create request reaches the two time checks of lines 101-121 when its required fields
  are there, its ground and its customer resolve, and the conflict query returns no
  booking.
\<close>

definition passesEarlierChecks :: "runtime \<Rightarrow> db \<Rightarrow> create_body \<Rightarrow> bool" where
  "passesEarlierChecks rt st body =
     (case (req_customerId body, req_groundId body, req_bookingDate body,
            req_startTime body, req_endTime body) of
        (Some cId, Some gId, Some bDate, Some sTime, Some eTime) \<Rightarrow>
          cId \<noteq> [] \<and> gId \<noteq> [] \<and> bDate \<noteq> [] \<and> sTime \<noteq> [] \<and> eTime \<noteq> []
          \<and> truthy (req_amount body)
          \<and> grounds st gId \<noteq> None \<and> users st cId \<noteq> None
          \<and> conflictingBookings rt (bookings st) gId
                (jsOr (req_groundSlot body) (JNum (Fin 1))) bDate sTime eTime = Some []
      | _ \<Rightarrow> False)"

text \<open>
  The example request moved to 2030-01-01 at 00:30, half an hour after the clock, in
  slot 2, where nothing is booked.
\<close>

definition soonBody :: create_body where
  "soonBody = exampleBody\<lparr>req_groundSlot := JNum (Fin 2), req_bookingDate := Some ''2030-01-01'',
                 req_startTime := Some ''00:30'', req_endTime := Some ''01:30''\<rparr>"

text \<open>
  A store whose only booking is \<open>confirmedBooking\<close> while it was still pending: it
  starts half an hour after the clock.
\<close>

definition soonPendingDb :: db where
  "soonPendingDb = exampleDb\<lparr>bookings := [confirmedBooking\<lparr>status := Pending\<rparr>]\<rparr>"

text \<open>
  Two dates are on the same calendar day of the server when their local times have the
  same day number.
\<close>

definition sameCalendarDay :: "runtime \<Rightarrow> int \<Rightarrow> int \<Rightarrow> bool" where
  "sameCalendarDay rt t d =
     ((t + tzOffset rt) div 86400000 = (d + tzOffset rt) div 86400000)"

text \<open>
  A create request reaches the conflict query of line 62 with these five texts when they
  are its required fields, none is empty, its amount is truthy, and its ground and its
  customer resolve.
\<close>

definition reachesConflictQuery ::
  "db \<Rightarrow> create_body \<Rightarrow> string \<Rightarrow> string \<Rightarrow> string \<Rightarrow> string \<Rightarrow> string \<Rightarrow> bool" where
  "reachesConflictQuery st body cId gId bDate sTime eTime =
     (req_customerId body = Some cId \<and> req_groundId body = Some gId
      \<and> req_bookingDate body = Some bDate \<and> req_startTime body = Some sTime
      \<and> req_endTime body = Some eTime
      \<and> cId \<noteq> [] \<and> gId \<noteq> [] \<and> bDate \<noteq> [] \<and> sTime \<noteq> [] \<and> eTime \<noteq> []
      \<and> truthy (req_amount body)
      \<and> grounds st gId \<noteq> None \<and> users st cId \<noteq> None)"

text \<open>An availability query reaches the conflict query of line 490 with these four texts.\<close>

definition asksAvailability ::
  "availability_query \<Rightarrow> string \<Rightarrow> string \<Rightarrow> string \<Rightarrow> string \<Rightarrow> bool" where
  "asksAvailability q gId bDate sTime eTime =
     (q_groundId q = Some gId \<and> q_bookingDate q = Some bDate
      \<and> q_startTime q = Some sTime \<and> q_endTime q = Some eTime
      \<and> gId \<noteq> [] \<and> bDate \<noteq> [] \<and> sTime \<noteq> [] \<and> eTime \<noteq> [])"

text \<open>
  The conflict rule in the words of claim C1: the slot of the request is its groundSlot,
  or 1 when that is absent, and a stored booking conflicts when it has the same ground
  and slot, a bookingDate on the same calendar day, a status other than cancelled, and
  \<open>startTime < newEndTime\<close> and \<open>endTime > newStartTime\<close>.
\<close>

definition claimedSlot :: "runtime \<Rightarrow> jsval \<Rightarrow> rat option" where
  "claimedSlot rt v = (if v = JUndefined then Some 1 else castNumber rt v)"

definition claimedConflict ::
  "runtime \<Rightarrow> string \<Rightarrow> jsval \<Rightarrow> int \<Rightarrow> string \<Rightarrow> string \<Rightarrow> booking \<Rightarrow> bool" where
  "claimedConflict rt gId slot d sTime eTime b =
     (groundId b = gId
      \<and> claimedSlot rt slot = Some (groundSlot b)
      \<and> sameCalendarDay rt (bookingDate b) d
      \<and> status b \<noteq> Cancelled
      \<and> strLess (startTime b) eTime
      \<and> strLess sTime (endTime b))"

text \<open>
  The example request with groundSlot 0, from 10:00 to 11:00: no booking is stored in
  slot 0, and the pending booking of slot 1 lasts from 09:30 to 10:30.
\<close>

definition slotZeroBody :: create_body where
  "slotZeroBody = exampleBody\<lparr>req_groundSlot := JNum (Fin 0), req_startTime := Some ''10:00'',
                     req_endTime := Some ''11:00''\<rparr>"

text \<open>
  The example request dated ten years before the clock, with its bookingDate written as
  the timestamp that the interface itself prints for a date.
\<close>

definition pastBody :: create_body where
  "pastBody = exampleBody\<lparr>req_bookingDate := Some ''2020-01-05T00:00:00.000Z'',
                 req_startTime := Some ''09:30'', req_endTime := Some ''10:30''\<rparr>"

text \<open>
  The same server nine hours later, at 2030-01-01T09:00:00.000Z, and a request for that
  day with its start time written \<^verbatim>\<open>9:30\<close>, half an hour after that clock. The text
  \<^verbatim>\<open>2030-01-01T9:30\<close> is not the text of a date. \<open>unpaddedBooking\<close> is what
  \<^verbatim>\<open>createBooking\<close> stores for the request, and \<open>unpaddedDb\<close> is the store once that
  booking has been confirmed.
\<close>

definition lateRuntime :: runtime where
  "lateRuntime = exampleRuntime\<lparr>now := 1893488400000\<rparr>"

definition unpaddedBody :: create_body where
  "unpaddedBody = exampleBody\<lparr>req_bookingDate := Some ''2030-01-01'',
                     req_startTime := Some ''9:30'', req_endTime := Some ''10:30''\<rparr>"

definition unpaddedBooking :: booking where
  "unpaddedBooking =
     \<lparr> bookingId = ''b5'', customerId = ''u1'', btype = ''ground'', groundId = ''g1'',
       groundSlot = 1, bookingDate = 1893456000000, startTime = ''9:30'',
       endTime = ''10:30'', duration = Fin 60, bookingType = ''practice'',
       specialRequirements = [''lights''], bookingNotes = [], amount = Fin 1500,
       status = Pending, paymentId = None \<rparr>"

definition unpaddedDb :: db where
  "unpaddedDb =
     exampleDb\<lparr>bookings := bookings exampleDb @ [unpaddedBooking\<lparr>status := Confirmed\<rparr>]\<rparr>"

section \<open>Unfolding the definitions\<close>

lemmas example_defs =
  exampleDateParse_def exampleToISOString_def exampleNumberToString_def exampleToNumber_def
  exampleRuntime_def pendingBooking_def confirmedBooking_def cancelledBooking_def
  completedBooking_def exampleDb_def exampleBody_def exampleQuery_def
  lateRuntime_def unpaddedBody_def unpaddedBooking_def unpaddedDb_def

lemmas parse_defs =
  parseInt_def parseFloat_def parseIntStr_def parseFloatStr_def isWhiteSpace_def
  isDecDigit_def isHexDigit_def digitsValue_def digitValue_def pow10_def

lemmas controller_defs =
  createBooking_def createChecked_def newBooking_def conflictingBookings_def
  customerDisplayName_def checkGroundAvailability_def updateBooking_def applyPatch_def
  cancelBooking_def cancelledNotes_def startDateTime_def confirmBooking_def
  confirmAndSave_def startOfDay_def endOfDay_def jsOr_def

section \<open>Facts about the store's operations\<close>

lemma strLess_irrefl: "\<not> strLess s s"
  by (induction s) auto

lemma findById_id: "findById bs i = Some b \<Longrightarrow> bookingId b = i"
  by (induction bs) (auto split: if_splits)

lemma findById_mem: "findById bs i = Some b \<Longrightarrow> b \<in> set bs"
  by (induction bs) (auto split: if_splits)

lemma findById_save:
  "findById bs i = Some b \<Longrightarrow> bookingId b' = i \<Longrightarrow> findById (save b' bs) i = Some b'"
  by (induction bs) (auto split: if_splits)

lemma save_same: "findById bs i = Some b \<Longrightarrow> save b bs = bs"
  by (induction bs) (auto split: if_splits dest: findById_id)

section \<open>Creating a booking: the required fields\<close>

lemma createChecked_not_missing:
  "fst (createChecked rt st body c g d s e) \<noteq> Inl MissingFields"
  by (auto simp: createChecked_def Let_def split: option.splits list.splits)

lemma createBooking_missing_iff:
  "fst (createBooking rt st body) = Inl MissingFields \<longleftrightarrow>
     (\<not> truthyStr (req_customerId body) \<or> \<not> truthyStr (req_groundId body) \<or>
      \<not> truthyStr (req_bookingDate body) \<or> \<not> truthyStr (req_startTime body) \<or>
      \<not> truthyStr (req_endTime body) \<or> \<not> truthy (req_amount body))"
  by (auto simp: createBooking_def createChecked_not_missing split: option.splits)

lemma createChecked_error_keeps:
  "createChecked rt st body c g d s e = (Inl err, st') \<Longrightarrow> st' = st"
  by (auto simp: createChecked_def Let_def split: option.splits list.splits if_splits)

lemma createBooking_error_keeps:
  "createBooking rt st body = (Inl err, st') \<Longrightarrow> st' = st"
  by (auto simp: createBooking_def split: option.splits if_splits
           dest: createChecked_error_keeps)

text \<open>
  Claim C8. A create request in which customerId, groundId, bookingDate, startTime,
  endTime or amount is absent is answered with the missing-required-fields error (status
  400) and the store is left as it was. Whether that error is given does not depend on
  duration: duration is not among the required fields.
\<close>

theorem C8_missing_required_field:
  "(req_customerId body = None \<or> req_groundId body = None \<or> req_bookingDate body = None \<or>
    req_startTime body = None \<or> req_endTime body = None \<or> req_amount body = JUndefined
      \<longrightarrow> createBooking rt st body = (Inl MissingFields, st))
   \<and> (fst (createBooking rt st (body\<lparr>req_duration := d\<rparr>)) = Inl MissingFields
          \<longleftrightarrow> fst (createBooking rt st body) = Inl MissingFields)
   \<and> httpStatus MissingFields = 400"
proof -
  have absent: "createBooking rt st body = (Inl MissingFields, st)"
    if "req_customerId body = None \<or> req_groundId body = None \<or> req_bookingDate body = None \<or>
        req_startTime body = None \<or> req_endTime body = None \<or> req_amount body = JUndefined"
    using that by (auto simp: createBooking_def)
  have indep: "fst (createBooking rt st (body\<lparr>req_duration := d\<rparr>)) = Inl MissingFields
          \<longleftrightarrow> fst (createBooking rt st body) = Inl MissingFields"
    by (simp add: createBooking_missing_iff)
  show ?thesis using absent indep by simp
qed

text \<open>
  The example request without its amount and its duration is refused; with its amount
  and without its duration it is not refused for a missing field.
\<close>

theorem C8_missing_required_field_witness:
  "req_amount (exampleBody\<lparr>req_amount := JUndefined, req_duration := JUndefined\<rparr>) = JUndefined
   \<and> createBooking exampleRuntime exampleDb
        (exampleBody\<lparr>req_amount := JUndefined, req_duration := JUndefined\<rparr>)
       = (Inl MissingFields, exampleDb)
   \<and> fst (createBooking exampleRuntime exampleDb (exampleBody\<lparr>req_duration := JUndefined\<rparr>))
       \<noteq> Inl MissingFields"
  using C8_missing_required_field
          [of "exampleBody\<lparr>req_amount := JUndefined, req_duration := JUndefined\<rparr>"
              exampleRuntime exampleDb JUndefined]
        C8_missing_required_field [of exampleBody exampleRuntime exampleDb JUndefined]
  by (simp add: createBooking_missing_iff exampleBody_def)

section \<open>Creating a booking: the path through the checks\<close>

lemma createChecked_past:
  "fst (createChecked rt st body c g d s e) = Inl PastDateTime
     \<Longrightarrow> dateLe (dateParse rt (d @ ''T'' @ s)) (now rt)"
  by (auto simp: createChecked_def Let_def split: option.splits list.splits if_splits)

lemma createChecked_soon:
  "fst (createChecked rt st body c g d s e) = Inl TooSoon
     \<Longrightarrow> \<not> dateLe (dateParse rt (d @ ''T'' @ s)) (now rt)
         \<and> dateLt (dateParse rt (d @ ''T'' @ s)) (now rt + 60 * 60 * 1000)"
  by (auto simp: createChecked_def Let_def split: option.splits list.splits if_splits)

lemma createChecked_accepts:
  "createChecked rt st body c g d s e = (Inr b, st')
     \<Longrightarrow> \<not> dateLt (dateParse rt (d @ ''T'' @ s)) (now rt + 60 * 60 * 1000)
        \<and> \<not> dateLe (dateParse rt (d @ ''T'' @ s)) (now rt)"
  by (auto simp: createChecked_def Let_def split: option.splits list.splits if_splits)

lemma createBooking_checked:
  "req_customerId body = Some c \<Longrightarrow> req_groundId body = Some g \<Longrightarrow>
   req_bookingDate body = Some d \<Longrightarrow> req_startTime body = Some s \<Longrightarrow>
   req_endTime body = Some e \<Longrightarrow> c \<noteq> [] \<Longrightarrow> g \<noteq> [] \<Longrightarrow> d \<noteq> [] \<Longrightarrow> s \<noteq> [] \<Longrightarrow> e \<noteq> [] \<Longrightarrow>
   truthy (req_amount body) \<Longrightarrow> grounds st g = Some gr \<Longrightarrow> users st c = Some u \<Longrightarrow>
   createBooking rt st body = createChecked rt st body c g d s e"
  by (simp add: createBooking_def)

lemma createBooking_cases:
  "createBooking rt st body = (Inl MissingFields, st) \<or> 
   createBooking rt st body = (Inl GroundNotFound, st) \<or> 
   createBooking rt st body = (Inl CustomerNotFound, st) \<or> 
   (\<exists>c g d s e. req_customerId body = Some c \<and> req_groundId body = Some g \<and> req_bookingDate body = Some d
       \<and> req_startTime body = Some s \<and> req_endTime body = Some e 
       \<and> c \<noteq> [] \<and> g \<noteq> [] \<and> d \<noteq> [] \<and> s \<noteq> [] \<and> e \<noteq> [] \<and> truthy (req_amount body)
       \<and> grounds st g \<noteq> None \<and> users st c \<noteq> None
       \<and> createBooking rt st body = createChecked rt st body c g d s e)"
proof (cases "\<not> truthyStr (req_customerId body) \<or> \<not> truthyStr (req_groundId body) \<or>
      \<not> truthyStr (req_bookingDate body) \<or> \<not> truthyStr (req_startTime body) \<or>
      \<not> truthyStr (req_endTime body) \<or> \<not> truthy (req_amount body)")
  case True
  then have "createBooking rt st body = (Inl MissingFields, st)"
    by (simp add: createBooking_def)
  then show ?thesis by simp
next
  case False
  then obtain c g d s e where f: "req_customerId body = Some c" "req_groundId body = Some g"
     "req_bookingDate body = Some d" "req_startTime body = Some s" "req_endTime body = Some e"
     "c \<noteq> []" "g \<noteq> []" "d \<noteq> []" "s \<noteq> []" "e \<noteq> []" "truthy (req_amount body)"
    by (cases "req_customerId body"; cases "req_groundId body"; cases "req_bookingDate body";
        cases "req_startTime body"; cases "req_endTime body"; simp)
  show ?thesis
  proof (cases "grounds st g")
    case None
    with f have "createBooking rt st body = (Inl GroundNotFound, st)"
      by (simp add: createBooking_def)
    then show ?thesis by simp
  next
    case (Some gr)
    show ?thesis
    proof (cases "users st c")
      case None
      with f Some have "createBooking rt st body = (Inl CustomerNotFound, st)"
        by (simp add: createBooking_def)
      then show ?thesis by simp
    next
      case (Some u)
      with f \<open>grounds st g = Some gr\<close> createBooking_checked [of body c g d s e st gr u rt]
      show ?thesis by simp
    qed
  qed
qed

lemma passesEarlierChecksD:
  assumes "passesEarlierChecks rt st body"
  shows "\<exists>c g d s e. req_customerId body = Some c \<and> req_groundId body = Some g
       \<and> req_bookingDate body = Some d \<and> req_startTime body = Some s
       \<and> req_endTime body = Some e
       \<and> createBooking rt st body = createChecked rt st body c g d s e
       \<and> conflictingBookings rt (bookings st) g
            (jsOr (req_groundSlot body) (JNum (Fin 1))) d s e = Some []"
proof -
  from assms obtain c g d s e where f: "req_customerId body = Some c" "req_groundId body = Some g"
     "req_bookingDate body = Some d" "req_startTime body = Some s" "req_endTime body = Some e"
    by (cases "req_customerId body"; cases "req_groundId body"; cases "req_bookingDate body";
        cases "req_startTime body"; cases "req_endTime body"; simp add: passesEarlierChecks_def)
  with assms have g: "c \<noteq> []" "g \<noteq> []" "d \<noteq> []" "s \<noteq> []" "e \<noteq> []" "truthy (req_amount body)"
     "grounds st g \<noteq> None" "users st c \<noteq> None"
     "conflictingBookings rt (bookings st) g
            (jsOr (req_groundSlot body) (JNum (Fin 1))) d s e = Some []"
    by (simp_all add: passesEarlierChecks_def)
  then obtain gr u where "grounds st g = Some gr" "users st c = Some u" by auto
  with f g createBooking_checked [of body c g d s e st gr u rt] show ?thesis by simp
qed

lemma createBooking_accepts:
  assumes "createBooking rt st body = (Inr b, st')"
  shows "\<exists>c g d s e. req_customerId body = Some c \<and> req_groundId body = Some g
       \<and> req_bookingDate body = Some d \<and> req_startTime body = Some s
       \<and> req_endTime body = Some e
       \<and> createChecked rt st body c g d s e = (Inr b, st')"
  using createBooking_cases [of rt st body] assms by auto

lemma createBooking_result:
  assumes "fst (createBooking rt st body) = Inl err"
      and "err \<noteq> MissingFields" "err \<noteq> GroundNotFound" "err \<noteq> CustomerNotFound"
  shows "\<exists>c g d s e. req_customerId body = Some c \<and> req_groundId body = Some g
       \<and> req_bookingDate body = Some d \<and> req_startTime body = Some s
       \<and> req_endTime body = Some e
       \<and> fst (createChecked rt st body c g d s e) = Inl err"
  using createBooking_cases [of rt st body] assms by auto

lemma createBooking_rejects_early_start:
  assumes "req_bookingDate body = Some bDate"
      and "req_startTime body = Some sTime"
      and "dateParse rt (bDate @ ''T'' @ sTime) = Some t"
      and "t < now rt + 60 * 60 * 1000"
  shows "\<exists>e. createBooking rt st body = (Inl e, st)"
proof (cases "createBooking rt st body")
  case (Pair r st')
  show ?thesis
  proof (cases r)
    case (Inl e)
    with Pair createBooking_error_keeps [of rt st body e st'] show ?thesis by simp
  next
    case (Inr b)
    with Pair createBooking_accepts [of rt st body b st'] assms
    obtain c g e where "createChecked rt st body c g bDate sTime e = (Inr b, st')"
      by auto
    from createChecked_accepts [OF this] assms show ?thesis by simp
  qed
qed

lemma createChecked_no_conflict:
  assumes "conflictingBookings rt (bookings st) g
            (jsOr (req_groundSlot body) (JNum (Fin 1))) d s e = Some []"
      and "dateParse rt (d @ ''T'' @ s) = Some t"
  shows "createChecked rt st body c g d s e =
           (if t \<le> now rt then (Inl PastDateTime, st)
            else if t < now rt + 60 * 60 * 1000 then (Inl TooSoon, st)
            else createChecked rt st body c g d s e)"
  using assms by (simp add: createChecked_def)


lemma createBooking_time_checks:
  assumes "passesEarlierChecks rt st body"
      and "req_bookingDate body = Some bDate"
      and "req_startTime body = Some sTime"
      and "dateParse rt (bDate @ ''T'' @ sTime) = Some t"
  shows "(t \<le> now rt \<longrightarrow> createBooking rt st body = (Inl PastDateTime, st))
       \<and> (now rt < t \<and> t < now rt + 60 * 60 * 1000
            \<longrightarrow> createBooking rt st body = (Inl TooSoon, st))"
proof -
  from passesEarlierChecksD [OF assms(1)] obtain c g d s e where
    f: "req_bookingDate body = Some d" "req_startTime body = Some s"
       "createBooking rt st body = createChecked rt st body c g d s e"
       "conflictingBookings rt (bookings st) g
            (jsOr (req_groundSlot body) (JNum (Fin 1))) d s e = Some []"
    by blast
  from f(1,2) assms(2,3) have ds: "d = bDate" "s = sTime" by simp_all
  from f(4) assms(4) ds have
    "createChecked rt st body c g d s e =
           (if t \<le> now rt then (Inl PastDateTime, st)
            else if t < now rt + 60 * 60 * 1000 then (Inl TooSoon, st)
            else createChecked rt st body c g d s e)"
    by (intro createChecked_no_conflict) simp_all
  with f(3) show ?thesis by (simp split: if_splits)
qed

lemma createBooking_past_only:
  assumes "fst (createBooking rt st body) = Inl PastDateTime"
      and "req_bookingDate body = Some bDate"
      and "req_startTime body = Some sTime"
  shows "dateLe (dateParse rt (bDate @ ''T'' @ sTime)) (now rt)"
proof -
  from createBooking_result [OF assms(1)] assms(2,3)
  obtain c g e where "fst (createChecked rt st body c g bDate sTime e) = Inl PastDateTime"
    by auto
  from createChecked_past [OF this] show ?thesis .
qed

lemma createBooking_soon_only:
  assumes "fst (createBooking rt st body) = Inl TooSoon"
      and "req_bookingDate body = Some bDate"
      and "req_startTime body = Some sTime"
  shows "\<not> dateLe (dateParse rt (bDate @ ''T'' @ sTime)) (now rt)
         \<and> dateLt (dateParse rt (bDate @ ''T'' @ sTime)) (now rt + 60 * 60 * 1000)"
proof -
  from createBooking_result [OF assms(1)] assms(2,3)
  obtain c g e where "fst (createChecked rt st body c g bDate sTime e) = Inl TooSoon"
    by auto
  from createChecked_soon [OF this] show ?thesis .
qed

text \<open>
  The two time checks of lines 101-121, for a create request whose bookingDate, \<^verbatim>\<open>T\<close> and
  startTime together are the text of a date-time \<open>t\<close>. If \<open>t\<close> is not strictly after
  the current time the request is rejected, and if \<open>t\<close> is less than one hour after the
  current time it is rejected; in both cases the store is left as it was. A request that
  reaches the checks is answered with the past-date message when \<open>t \<le> now\<close> and with
  the one-hour message when \<open>now < t < now + 1h\<close>; each message is given in that case
  only, and the two messages differ (both with status 400).
\<close>

theorem time_checks_on_valid_date:
  assumes "req_bookingDate body = Some bDate"
      and "req_startTime body = Some sTime"
      and "dateParse rt (bDate @ ''T'' @ sTime) = Some t"
  shows "(t \<le> now rt \<longrightarrow> (\<exists>e. createBooking rt st body = (Inl e, st)))
       \<and> (t < now rt + 60 * 60 * 1000 \<longrightarrow> (\<exists>e. createBooking rt st body = (Inl e, st)))
       \<and> (passesEarlierChecks rt st body \<and> t \<le> now rt
            \<longrightarrow> createBooking rt st body = (Inl PastDateTime, st))
       \<and> (passesEarlierChecks rt st body \<and> now rt < t \<and> t < now rt + 60 * 60 * 1000
            \<longrightarrow> createBooking rt st body = (Inl TooSoon, st))
       \<and> (fst (createBooking rt st body) = Inl PastDateTime \<longrightarrow> t \<le> now rt)
       \<and> (fst (createBooking rt st body) = Inl TooSoon
            \<longrightarrow> now rt < t \<and> t < now rt + 60 * 60 * 1000)
       \<and> message PastDateTime \<noteq> message TooSoon
       \<and> httpStatus PastDateTime = 400 \<and> httpStatus TooSoon = 400"
proof (intro conjI impI)
  assume "t \<le> now rt"
  then have "t < now rt + 60 * 60 * 1000" by simp
  from createBooking_rejects_early_start [OF assms this]
  show "\<exists>e. createBooking rt st body = (Inl e, st)" .
next
  assume "t < now rt + 60 * 60 * 1000"
  from createBooking_rejects_early_start [OF assms this]
  show "\<exists>e. createBooking rt st body = (Inl e, st)" .
next
  assume "passesEarlierChecks rt st body \<and> t \<le> now rt"
  with createBooking_time_checks [OF _ assms, of st]
  show "createBooking rt st body = (Inl PastDateTime, st)" by blast
next
  assume "passesEarlierChecks rt st body \<and> now rt < t \<and> t < now rt + 60 * 60 * 1000"
  with createBooking_time_checks [OF _ assms, of st]
  show "createBooking rt st body = (Inl TooSoon, st)" by blast
next
  assume "fst (createBooking rt st body) = Inl PastDateTime"
  from createBooking_past_only [OF this assms(1,2)] assms(3)
  show "t \<le> now rt" by simp
next
  assume a: "fst (createBooking rt st body) = Inl TooSoon"
  from createBooking_soon_only [OF a assms(1,2)] assms(3)
  show "now rt < t" by simp
  from createBooking_soon_only [OF a assms(1,2)] assms(3)
  show "t < now rt + 60 * 60 * 1000" by simp
next
  show "message PastDateTime \<noteq> message TooSoon" by simp
  show "httpStatus PastDateTime = 400" by simp
  show "httpStatus TooSoon = 400" by simp
qed


lemma soonBody_passes: "passesEarlierChecks exampleRuntime exampleDb soonBody"
  by (simp add: passesEarlierChecks_def soonBody_def conflictingBookings_def jsOr_def
                startOfDay_def endOfDay_def example_defs)

text \<open>The request for half an hour from now reaches the checks and gets the one-hour answer.\<close>

theorem time_checks_on_valid_date_example:
  "req_bookingDate soonBody = Some ''2030-01-01''
   \<and> req_startTime soonBody = Some ''00:30''
   \<and> dateParse exampleRuntime (''2030-01-01'' @ ''T'' @ ''00:30'') = Some 1893457800000
   \<and> passesEarlierChecks exampleRuntime exampleDb soonBody
   \<and> now exampleRuntime < 1893457800000
   \<and> 1893457800000 < now exampleRuntime + 60 * 60 * 1000
   \<and> createBooking exampleRuntime exampleDb soonBody = (Inl TooSoon, exampleDb)"
proof -
  have b: "req_bookingDate soonBody = Some ''2030-01-01''"
    and s: "req_startTime soonBody = Some ''00:30''"
    by (simp_all add: soonBody_def exampleBody_def)
  have p: "dateParse exampleRuntime (''2030-01-01'' @ ''T'' @ ''00:30'') = Some 1893457800000"
    by (simp add: exampleRuntime_def exampleDateParse_def)
  have n: "now exampleRuntime < 1893457800000"
      "1893457800000 < now exampleRuntime + 60 * 60 * 1000"
    by (simp_all add: exampleRuntime_def)
  from time_checks_on_valid_date [OF b s p, of exampleDb] soonBody_passes n
  have "createBooking exampleRuntime exampleDb soonBody = (Inl TooSoon, exampleDb)"
    by blast
  with b s p n soonBody_passes show ?thesis by blast
qed

text \<open>
  When that text is not a valid date-time, \<^verbatim>\<open>new Date\<close> gives an invalid date, both
  comparisons of lines 105 and 115 are false, and neither answer is given.
\<close>

lemma time_checks_skip_invalid_date:
  assumes "req_bookingDate body = Some bDate"
      and "req_startTime body = Some sTime"
      and "dateParse rt (bDate @ ''T'' @ sTime) = None"
  shows "fst (createBooking rt st body) \<noteq> Inl PastDateTime
       \<and> fst (createBooking rt st body) \<noteq> Inl TooSoon"
proof (intro conjI notI)
  assume "fst (createBooking rt st body) = Inl PastDateTime"
  from createBooking_past_only [OF this assms(1,2)] assms(3) show False by simp
next
  assume "fst (createBooking rt st body) = Inl TooSoon"
  from createBooking_soon_only [OF this assms(1,2)] assms(3) show False by simp
qed

text \<open>
  Claim C5 says that every create request whose bookingDate and startTime are not
  strictly after the current time is rejected and nothing is stored. The request
  \<open>pastBody\<close> asks for 2020-01-05 at 09:30 while the clock shows 2030-01-01; its
  bookingDate is a valid date, but followed by \<^verbatim>\<open>T09:30\<close> it is not the text of a date,
  so the request passes both checks and is stored as a fifth booking, dated 2020-01-05.
\<close>

theorem C5_past_date_is_stored:
  "req_bookingDate pastBody = Some ''2020-01-05T00:00:00.000Z''
   \<and> req_startTime pastBody = Some ''09:30''
   \<and> dateParse exampleRuntime ''2020-01-05T00:00:00.000Z'' = Some 1578182400000
   \<and> dateParse exampleRuntime (''2020-01-05T00:00:00.000Z'' @ ''T'' @ ''09:30'') = None
   \<and> 1578182400000 + 24 * 60 * 60 * 1000 < now exampleRuntime
   \<and> map_sum id bookingDate (fst (createBooking exampleRuntime exampleDb pastBody))
       = Inr 1578182400000
   \<and> length (bookings (snd (createBooking exampleRuntime exampleDb pastBody))) = 5"
  by (simp add: pastBody_def createBooking_def createChecked_def conflictingBookings_def
        jsOr_def startOfDay_def endOfDay_def example_defs newBooking_def parse_defs Let_def)

text \<open>
  The request has all its required fields, and what is stored for it lies before the
  clock.
\<close>

theorem C5_past_date_is_stored_witness:
  "truthyStr (req_customerId pastBody) \<and> truthyStr (req_groundId pastBody)
   \<and> truthyStr (req_bookingDate pastBody) \<and> truthyStr (req_startTime pastBody)
   \<and> truthyStr (req_endTime pastBody) \<and> truthy (req_amount pastBody)
   \<and> (\<exists>b. fst (createBooking exampleRuntime exampleDb pastBody) = Inr b
           \<and> bookingDate b < now exampleRuntime)"
  using C5_past_date_is_stored
  by (cases "fst (createBooking exampleRuntime exampleDb pastBody)")
     (simp_all add: pastBody_def exampleBody_def exampleRuntime_def)

section \<open>Creating a booking: a falsy amount\<close>

text \<open>
  Claim C10, as amended. A create request whose amount is falsy (absent, null, false, the
  number 0, NaN or the empty text) is answered with the missing-required-fields error
  and the store is left as it was; so no booking is created from a request whose amount
  is the number 0 or the empty text.
\<close>

theorem C10_falsy_amount_rejected:
  "(\<not> truthy (req_amount body) \<longrightarrow> createBooking rt st body = (Inl MissingFields, st))
   \<and> (createBooking rt st body = (Inr b, st') \<longrightarrow> truthy (req_amount body))
   \<and> \<not> truthy (JNum (Fin 0)) \<and> \<not> truthy (JStr [])"
  by (auto simp: createBooking_def)

theorem C10_falsy_amount_rejected_witness:
  "\<not> truthy (req_amount (exampleBody\<lparr>req_amount := JNum (Fin 0)\<rparr>))
   \<and> createBooking exampleRuntime exampleDb (exampleBody\<lparr>req_amount := JNum (Fin 0)\<rparr>)
       = (Inl MissingFields, exampleDb)"
  using C10_falsy_amount_rejected
          [of "exampleBody\<lparr>req_amount := JNum (Fin 0)\<rparr>" exampleRuntime exampleDb]
  by simp

text \<open>
  The claim as stated ends with "a zero-amount booking can never be created". The text
  \<^verbatim>\<open>"0"\<close> is truthy, \<^verbatim>\<open>parseFloat\<close> reads it as 0, and the example request with that
  amount is stored as a fifth booking whose amount is 0.
\<close>

theorem C10_zero_amount_counterexample:
  "map_sum id amount
     (fst (createBooking exampleRuntime exampleDb (exampleBody\<lparr>req_amount := JStr ''0''\<rparr>)))
     = Inr (Fin 0)
   \<and> length (bookings (snd (createBooking exampleRuntime exampleDb
                              (exampleBody\<lparr>req_amount := JStr ''0''\<rparr>)))) = 5"
  by (simp add: controller_defs example_defs parse_defs Let_def)

section \<open>Creating a booking: what is stored\<close>







text \<open>
  The claim as stated also gives the stored duration as an integer. A duration written
  with 310 digits is beyond the range of numbers: \<^verbatim>\<open>parseInt\<close> gives Infinity, and
  that is what is stored.
\<close>

lemma long_duration_is_infinite:
  "map_sum id duration
     (fst (createBooking exampleRuntime exampleDb
        (exampleBody\<lparr>req_duration :=
           JStr (''10000000000000000000000000000000000000000000000000000000000000'' @
               ''00000000000000000000000000000000000000000000000000000000000000'' @
               ''00000000000000000000000000000000000000000000000000000000000000'' @
               ''00000000000000000000000000000000000000000000000000000000000000'' @
               ''00000000000000000000000000000000000000000000000000000000000000'')\<rparr>)))
   = Inr PosInf"
  by (simp add: createBooking_def createChecked_def conflictingBookings_def jsOr_def
        startOfDay_def endOfDay_def example_defs newBooking_def parse_defs Let_def)

section \<open>Cancelling a booking\<close>

lemma numLess_hoursUntil:
  "numLess (hoursUntil d n) 2 \<longleftrightarrow> dateLt d (n + 2 * 60 * 60 * 1000)"
proof (cases d)
  case None
  then show ?thesis by simp
next
  case (Some t)
  have "(rat_of_int (t - n) / (1000 * 60 * 60) < 2) \<longleftrightarrow> rat_of_int (t - n) < rat_of_int 7200000"
    by (simp add: field_simps)
  also have "\<dots> \<longleftrightarrow> t - n < 7200000"
    by (simp only: of_int_less_iff)
  finally show ?thesis using Some by auto
qed

lemma cancelBooking_found:
  assumes "findById (bookings st) i = Some b"
  shows "cancelBooking rt st i reason =
           (if status b = Cancelled then (Inl AlreadyCancelled, st)
            else if dateLt (startDateTime rt b) (now rt + 2 * 60 * 60 * 1000)
                    \<and> status b = Confirmed
            then (Inl TooLateToCancel, st)
            else (Inr (b\<lparr>status := Cancelled,
                          bookingNotes := cancelledNotes (bookingNotes b) reason\<rparr>),
                  st\<lparr>bookings := save (b\<lparr>status := Cancelled,
                          bookingNotes := cancelledNotes (bookingNotes b) reason\<rparr>)
                                         (bookings st)\<rparr>))"
  using assms by (simp add: cancelBooking_def Let_def numLess_hoursUntil)

text \<open>
  The cut-off of lines 343-353, for a booking whose start date-time (its bookingDate's
  date, \<^verbatim>\<open>T\<close> and its startTime) is the text of a date-time \<open>t\<close>. A confirmed booking
  is refused with "Cannot cancel booking less than 2 hours before start time" (status
  400), the store staying as it was, when \<open>t\<close> is less than two hours after the current
  time, and is cancelled and saved when \<open>t\<close> is two hours or more away.
\<close>

theorem cancel_cutoff_on_valid_start:
  assumes "findById (bookings st) i = Some b"
      and "status b = Confirmed"
      and "startDateTime rt b = Some t"
  shows "(t < now rt + 2 * 60 * 60 * 1000 \<longrightarrow>
            cancelBooking rt st i reason = (Inl TooLateToCancel, st))
       \<and> (now rt + 2 * 60 * 60 * 1000 \<le> t \<longrightarrow>
            cancelBooking rt st i reason
              = (Inr (b\<lparr>status := Cancelled,
                         bookingNotes := cancelledNotes (bookingNotes b) reason\<rparr>),
                 st\<lparr>bookings := save (b\<lparr>status := Cancelled,
                         bookingNotes := cancelledNotes (bookingNotes b) reason\<rparr>)
                                        (bookings st)\<rparr>))
       \<and> httpStatus TooLateToCancel = 400"
  using assms(2,3) by (simp add: cancelBooking_found [OF assms(1)])

text \<open>
  A pending booking is cancelled and saved at any lead time, whatever its start; and a
  cancelled booking is refused with "Booking is already cancelled" (line 336).
\<close>

theorem cancel_pending_at_any_time:
  assumes "findById (bookings st) i = Some b"
      and "status b = Pending"
  shows "cancelBooking rt st i reason
           = (Inr (b\<lparr>status := Cancelled,
                      bookingNotes := cancelledNotes (bookingNotes b) reason\<rparr>),
              st\<lparr>bookings := save (b\<lparr>status := Cancelled,
                      bookingNotes := cancelledNotes (bookingNotes b) reason\<rparr>)
                                     (bookings st)\<rparr>)
       \<and> findById (save (b\<lparr>status := Cancelled,
                      bookingNotes := cancelledNotes (bookingNotes b) reason\<rparr>)
                   (bookings st)) i
           = Some (b\<lparr>status := Cancelled,
                      bookingNotes := cancelledNotes (bookingNotes b) reason\<rparr>)"
proof -
  from findById_id [OF assms(1)]
  have "bookingId (b\<lparr>status := Cancelled,
                      bookingNotes := cancelledNotes (bookingNotes b) reason\<rparr>) = i"
    by simp
  from findById_save [OF assms(1) this] assms(2) show ?thesis
    by (simp add: cancelBooking_found [OF assms(1)])
qed

text \<open>
  Claim C9. After a successful cancel the stored booking has status cancelled and every
  other field but the notes as before. When the notes were not empty, the new notes are
  the old ones, a line feed, and the cancellation-reason line with the supplied reason;
  when they were empty, the notes are that line alone. The old notes are a prefix of the
  new ones in both cases.
\<close>

theorem C9_cancel_appends_reason:
  assumes "findById (bookings st) i = Some b"
      and "cancelBooking rt st i reason = (Inr c, st')"
  shows "status c = Cancelled
       \<and> (bookingNotes b \<noteq> [] \<longrightarrow>
            bookingNotes c = bookingNotes b @ [CHR 0x0A] @ ''Cancellation reason: ''
                               @ template reason)
       \<and> (bookingNotes b = [] \<longrightarrow>
            bookingNotes c = ''Cancellation reason: '' @ template reason)
       \<and> take (length (bookingNotes b)) (bookingNotes c) = bookingNotes b
       \<and> c = b\<lparr>status := Cancelled, bookingNotes := bookingNotes c\<rparr>
       \<and> st' = st\<lparr>bookings := save c (bookings st)\<rparr>
       \<and> findById (bookings st') i = Some c"
proof -
  let ?c = "b\<lparr>status := Cancelled, bookingNotes := cancelledNotes (bookingNotes b) reason\<rparr>"
  from assms cancelBooking_found [OF assms(1), of rt reason]
  have c: "c = ?c" and st': "st' = st\<lparr>bookings := save ?c (bookings st)\<rparr>"
    by (auto split: if_splits)
  from findById_id [OF assms(1)] have "bookingId ?c = i" by simp
  from findById_save [OF assms(1) this] have "findById (save ?c (bookings st)) i = Some ?c" .
  with c st' show ?thesis by (simp add: cancelledNotes_def)
qed


text \<open>
  The examples: the confirmed booking starts in 30 minutes and is refused; were it
  pending, it is cancelled.
\<close>

lemma confirmedBooking_found: "findById (bookings exampleDb) ''b2'' = Some confirmedBooking"
  by (simp add: example_defs)

lemma confirmedBooking_start:
  "startDateTime exampleRuntime confirmedBooking = Some 1893457800000"
  by (simp add: startDateTime_def example_defs)

lemma soonPending_found:
  "findById (bookings soonPendingDb) ''b2'' = Some (confirmedBooking\<lparr>status := Pending\<rparr>)"
  by (simp add: example_defs soonPendingDb_def)

theorem cancel_cutoff_example:
  "findById (bookings exampleDb) ''b2'' = Some confirmedBooking
   \<and> status confirmedBooking = Confirmed
   \<and> startDateTime exampleRuntime confirmedBooking = Some (now exampleRuntime + 30 * 60 * 1000)
   \<and> cancelBooking exampleRuntime exampleDb ''b2'' (Some ''rain'')
        = (Inl TooLateToCancel, exampleDb)
   \<and> findById (bookings soonPendingDb) ''b2'' = Some (confirmedBooking\<lparr>status := Pending\<rparr>)
   \<and> startDateTime exampleRuntime (confirmedBooking\<lparr>status := Pending\<rparr>)
        = Some (now exampleRuntime + 30 * 60 * 1000)
   \<and> map_sum id status (fst (cancelBooking exampleRuntime soonPendingDb ''b2'' (Some ''rain'')))
        = Inr Cancelled"
proof -
  have s: "status confirmedBooking = Confirmed" by (simp add: confirmedBooking_def)
  have t: "startDateTime exampleRuntime confirmedBooking
             = Some (now exampleRuntime + 30 * 60 * 1000)"
    using confirmedBooking_start by (simp add: exampleRuntime_def)
  from cancel_cutoff_on_valid_start [OF confirmedBooking_found s t, of "Some ''rain''"]
  have late: "cancelBooking exampleRuntime exampleDb ''b2'' (Some ''rain'')
                = (Inl TooLateToCancel, exampleDb)"
    by simp
  have t': "startDateTime exampleRuntime (confirmedBooking\<lparr>status := Pending\<rparr>)
        = Some (now exampleRuntime + 30 * 60 * 1000)"
    using t by (simp add: startDateTime_def)
  have "status (confirmedBooking\<lparr>status := Pending\<rparr>) = Pending" by simp
  from cancel_pending_at_any_time [OF soonPending_found this, of exampleRuntime "Some ''rain''"]
  have ok: "map_sum id status
       (fst (cancelBooking exampleRuntime soonPendingDb ''b2'' (Some ''rain''))) = Inr Cancelled"
    by simp
  from confirmedBooking_found s t late soonPending_found t' ok show ?thesis by blast
qed

text \<open>
  The booking of \<open>unpaddedDb\<close> comes from the interface itself: the request
  \<open>unpaddedBody\<close> is stored (the time checks of \<^verbatim>\<open>createBooking\<close> are both false on
  an invalid date), and a confirm without payment confirms it.
\<close>

lemma unpaddedDb_reached:
  "createBooking lateRuntime exampleDb unpaddedBody
     = (Inr unpaddedBooking, exampleDb\<lparr>bookings := bookings exampleDb @ [unpaddedBooking]\<rparr>)
   \<and> confirmBooking (exampleDb\<lparr>bookings := bookings exampleDb @ [unpaddedBooking]\<rparr>)
         ''b5'' None
     = (Inr (unpaddedBooking\<lparr>status := Confirmed\<rparr>), unpaddedDb)"
  by (simp add: createBooking_def createChecked_def conflictingBookings_def jsOr_def
        startOfDay_def endOfDay_def newBooking_def confirmBooking_def confirmAndSave_def
        example_defs parse_defs Let_def)

text \<open>
  Claim C3 says that cancel rejects a confirmed booking whose start is less than two
  hours away. The confirmed booking \<open>b5\<close> of \<open>unpaddedDb\<close> is for 2030-01-01 at
  \<^verbatim>\<open>9:30\<close>, and the clock shows 09:00 of that day. Line 344 builds the text
  \<^verbatim>\<open>2030-01-01T9:30\<close>, an invalid date, so \<^verbatim>\<open>hoursUntilBooking\<close> is \<open>NaN\<close>, the
  comparison of line 348 is false, and the booking is cancelled and saved half an hour
  before its start.
\<close>

theorem C3_unparsed_start_is_cancelled:
  "findById (bookings unpaddedDb) ''b5'' = Some (unpaddedBooking\<lparr>status := Confirmed\<rparr>)
   \<and> status (unpaddedBooking\<lparr>status := Confirmed\<rparr>) = Confirmed
   \<and> bookingDate (unpaddedBooking\<lparr>status := Confirmed\<rparr>) = 1893456000000
   \<and> startTime (unpaddedBooking\<lparr>status := Confirmed\<rparr>) = ''9:30''
   \<and> now lateRuntime = 1893456000000 + 9 * 60 * 60 * 1000
   \<and> startDateTime lateRuntime (unpaddedBooking\<lparr>status := Confirmed\<rparr>) = None
   \<and> cancelBooking lateRuntime unpaddedDb ''b5'' (Some ''rain'')
       = (Inr (unpaddedBooking\<lparr>status := Cancelled,
                  bookingNotes := ''Cancellation reason: rain''\<rparr>),
          exampleDb\<lparr>bookings := bookings exampleDb @
             [unpaddedBooking\<lparr>status := Cancelled,
                  bookingNotes := ''Cancellation reason: rain''\<rparr>]\<rparr>)"
  by (simp add: cancelBooking_def cancelledNotes_def startDateTime_def Let_def example_defs)

text \<open>
  With the same start written \<^verbatim>\<open>09:30\<close> the text is a date-time, thirty minutes after
  the clock, and the cancel is refused.
\<close>

lemma padded_start_is_refused:
  "cancelBooking lateRuntime
     (exampleDb\<lparr>bookings := bookings exampleDb @
        [unpaddedBooking\<lparr>status := Confirmed, startTime := ''09:30''\<rparr>]\<rparr>)
     ''b5'' (Some ''rain'')
   = (Inl TooLateToCancel,
      exampleDb\<lparr>bookings := bookings exampleDb @
        [unpaddedBooking\<lparr>status := Confirmed, startTime := ''09:30''\<rparr>]\<rparr>)"
  by (simp add: cancelBooking_def startDateTime_def Let_def example_defs)

lemma pendingBooking_found: "findById (bookings exampleDb) ''b1'' = Some pendingBooking"
  by (simp add: example_defs)

lemma confirmedBooking_cancel_when_pending:
  "cancelBooking exampleRuntime soonPendingDb
     ''b2'' (Some ''rain'')
   = (Inr (confirmedBooking\<lparr>status := Cancelled,
             bookingNotes := ''bring cones'' @ [CHR 0x0A] @ ''Cancellation reason: rain''\<rparr>),
      exampleDb\<lparr>bookings := [confirmedBooking\<lparr>status := Cancelled,
             bookingNotes := ''bring cones'' @ [CHR 0x0A] @ ''Cancellation reason: rain''\<rparr>]\<rparr>)"
  by (simp add: cancelBooking_def cancelledNotes_def startDateTime_def Let_def example_defs
                soonPendingDb_def)

text \<open>The note "bring cones" is kept in front of the reason "rain".\<close>

theorem C9_cancel_appends_reason_witness:
  "findById (bookings soonPendingDb) ''b2''
     = Some (confirmedBooking\<lparr>status := Pending\<rparr>)
   \<and> bookingNotes (confirmedBooking\<lparr>status := Pending\<rparr>) = ''bring cones''
   \<and> cancelBooking exampleRuntime
        soonPendingDb ''b2'' (Some ''rain'')
      = (Inr (confirmedBooking\<lparr>status := Cancelled,
             bookingNotes := ''bring cones'' @ [CHR 0x0A] @ ''Cancellation reason: rain''\<rparr>),
         exampleDb\<lparr>bookings := [confirmedBooking\<lparr>status := Cancelled,
             bookingNotes := ''bring cones'' @ [CHR 0x0A] @ ''Cancellation reason: rain''\<rparr>]\<rparr>)
   \<and> take 11 (bookingNotes (confirmedBooking\<lparr>status := Cancelled,
             bookingNotes := ''bring cones'' @ [CHR 0x0A] @ ''Cancellation reason: rain''\<rparr>))
       = ''bring cones''"
proof -
  have f: "findById (bookings soonPendingDb)
             ''b2'' = Some (confirmedBooking\<lparr>status := Pending\<rparr>)"
    by (simp add: example_defs soonPendingDb_def)
  have n: "bookingNotes (confirmedBooking\<lparr>status := Pending\<rparr>) = ''bring cones''"
    by (simp add: confirmedBooking_def)
  from C9_cancel_appends_reason [OF f confirmedBooking_cancel_when_pending] n
  have "take 11 (bookingNotes (confirmedBooking\<lparr>status := Cancelled,
             bookingNotes := ''bring cones'' @ [CHR 0x0A] @ ''Cancellation reason: rain''\<rparr>))
       = ''bring cones''"
    by simp
  with f n confirmedBooking_cancel_when_pending show ?thesis by blast
qed


section \<open>Confirming a booking\<close>

lemma confirmAndSave_found:
  assumes "findById (bookings st) i = Some b" and "bookingId c = i"
  shows "confirmAndSave st c =
           (Inr (c\<lparr>status := Confirmed\<rparr>),
            st\<lparr>bookings := save (c\<lparr>status := Confirmed\<rparr>) (bookings st)\<rparr>)
       \<and> findById (save (c\<lparr>status := Confirmed\<rparr>) (bookings st)) i
           = Some (c\<lparr>status := Confirmed\<rparr>)"
proof -
  from assms(2) have "bookingId (c\<lparr>status := Confirmed\<rparr>) = i" by simp
  from findById_save [OF assms(1) this] show ?thesis
    by (simp add: confirmAndSave_def Let_def)
qed

lemma confirmBooking_found:
  assumes "findById (bookings st) i = Some b"
  shows "confirmBooking st i pId =
           (case pId of
              None \<Rightarrow> confirmAndSave st b
            | Some p \<Rightarrow>
                if p = [] then confirmAndSave st b
                else (case payments st p of
                        None \<Rightarrow> (Inl PaymentNotFound, st)
                      | Some payment \<Rightarrow>
                          if paymentStatus payment \<noteq> ''success''
                          then (Inl PaymentNotSuccessful, st)
                          else confirmAndSave st (b\<lparr>paymentId := Some p\<rparr>)))"
  using assms by (cases pId) (simp_all add: confirmBooking_def)

text \<open>
  Claim C4. Take a confirm request for an existing booking that supplies a paymentId. If
  no payment has that identifier the answer is "Payment not found" (status 404). If the
  payment exists and its status is not \<^verbatim>\<open>success\<close> the answer is "Payment is not
  successful" (status 400) and the store is as before. If its status is \<^verbatim>\<open>success\<close> the
  stored booking gets the paymentId and the status confirmed.
\<close>

theorem C4_confirm_with_payment:
  assumes "findById (bookings st) i = Some b" and "p \<noteq> []"
  shows "(payments st p = None \<longrightarrow> confirmBooking st i (Some p) = (Inl PaymentNotFound, st))
       \<and> (\<forall>pay. payments st p = Some pay \<and> paymentStatus pay \<noteq> ''success'' \<longrightarrow>
             confirmBooking st i (Some p) = (Inl PaymentNotSuccessful, st))
       \<and> (\<forall>pay. payments st p = Some pay \<and> paymentStatus pay = ''success'' \<longrightarrow>
             confirmBooking st i (Some p)
               = (Inr (b\<lparr>paymentId := Some p, status := Confirmed\<rparr>),
                  st\<lparr>bookings := save (b\<lparr>paymentId := Some p, status := Confirmed\<rparr>)
                                         (bookings st)\<rparr>)
             \<and> findById (save (b\<lparr>paymentId := Some p, status := Confirmed\<rparr>) (bookings st)) i
                 = Some (b\<lparr>paymentId := Some p, status := Confirmed\<rparr>))
       \<and> httpStatus PaymentNotFound = 404 \<and> httpStatus PaymentNotSuccessful = 400"
proof -
  from findById_id [OF assms(1)] have "bookingId (b\<lparr>paymentId := Some p\<rparr>) = i" by simp
  from confirmAndSave_found [OF assms(1) this] assms(2) show ?thesis
    by (auto simp: confirmBooking_found [OF assms(1)])
qed

text \<open>An unknown payment, a failed one and a successful one, for the pending example booking.\<close>

theorem C4_confirm_with_payment_witness:
  "findById (bookings exampleDb) ''b1'' = Some pendingBooking
   \<and> payments exampleDb ''p0'' = None
   \<and> confirmBooking exampleDb ''b1'' (Some ''p0'') = (Inl PaymentNotFound, exampleDb)
   \<and> payments exampleDb ''p2'' = Some \<lparr>paymentStatus = ''failed''\<rparr>
   \<and> confirmBooking exampleDb ''b1'' (Some ''p2'') = (Inl PaymentNotSuccessful, exampleDb)
   \<and> payments exampleDb ''p1'' = Some \<lparr>paymentStatus = ''success''\<rparr>
   \<and> fst (confirmBooking exampleDb ''b1'' (Some ''p1''))
       = Inr (pendingBooking\<lparr>paymentId := Some ''p1'', status := Confirmed\<rparr>)"
proof -
  have p0: "payments exampleDb ''p0'' = None"
    and p2: "payments exampleDb ''p2'' = Some \<lparr>paymentStatus = ''failed''\<rparr>"
    and p1: "payments exampleDb ''p1'' = Some \<lparr>paymentStatus = ''success''\<rparr>"
    by (simp_all add: exampleDb_def)
  have ne: "''p0'' \<noteq> []" "''p2'' \<noteq> []" "''p1'' \<noteq> []" by simp_all
  from C4_confirm_with_payment [OF pendingBooking_found ne(1)] p0
  have a: "confirmBooking exampleDb ''b1'' (Some ''p0'') = (Inl PaymentNotFound, exampleDb)"
    by blast
  from C4_confirm_with_payment [OF pendingBooking_found ne(2)] p2
  have b: "confirmBooking exampleDb ''b1'' (Some ''p2'') = (Inl PaymentNotSuccessful, exampleDb)"
    by simp
  from C4_confirm_with_payment [OF pendingBooking_found ne(3)] p1
  have c: "fst (confirmBooking exampleDb ''b1'' (Some ''p1''))
       = Inr (pendingBooking\<lparr>paymentId := Some ''p1'', status := Confirmed\<rparr>)"
    by simp
  from pendingBooking_found p0 p1 p2 a b c show ?thesis by blast
qed


lemma confirmAndSave_again:
  assumes "findById (bookings st) i = Some b" and "status b = Confirmed"
  shows "confirmAndSave st b = (Inr b, st)"
proof -
  from assms(2) have "b\<lparr>status := Confirmed\<rparr> = b" by simp
  with save_same [OF assms(1)] show ?thesis by (simp add: confirmAndSave_def Let_def)
qed

lemma confirmBooking_repeat:
  assumes "findById (bookings st) i = Some b"
      and "confirmBooking st i pId = (Inr c, st')"
  shows "status c = Confirmed \<and> findById (bookings st') i = Some c
       \<and> confirmBooking st' i pId = (Inr c, st')"
proof -
  let ?b = "case pId of None \<Rightarrow> b | Some p \<Rightarrow> if p = [] then b else b\<lparr>paymentId := Some p\<rparr>"
  from findById_id [OF assms(1)] have i: "bookingId ?b = i"
    by (simp split: option.splits)
  from assms(2) have r: "confirmAndSave st ?b = (Inr c, st')"
    by (auto simp: confirmBooking_found [OF assms(1)] split: option.splits if_splits)
  with confirmAndSave_found [OF assms(1) i]
  have c: "c = ?b\<lparr>status := Confirmed\<rparr>" and st': "st' = st\<lparr>bookings := save c (bookings st)\<rparr>"
    and f: "findById (bookings st') i = Some c"
    by simp_all
  from c have s: "status c = Confirmed" by simp
  have same: "(case pId of None \<Rightarrow> c | Some p \<Rightarrow> if p = [] then c else c\<lparr>paymentId := Some p\<rparr>) = c"
    using c by (simp split: option.splits)
  from assms(2) have pay: "pId = None \<or> (\<exists>p. pId = Some p \<and> (p = [] \<or>
       (\<exists>pm. payments st p = Some pm \<and> paymentStatus pm = ''success'')))"
    by (auto simp: confirmBooking_found [OF assms(1)] confirmAndSave_def Let_def
             split: option.splits if_splits)
  from st' have "payments st' = payments st" by simp
  with pay same confirmAndSave_again [OF f s]
  have "confirmBooking st' i pId = (Inr c, st')"
    by (auto simp: confirmBooking_found [OF f])
  with s f show ?thesis by simp
qed

text \<open>
  Claim C7. Confirm does not look at the status. On a booking that is already confirmed,
  confirm without a payment succeeds and leaves booking and store exactly as they were;
  with a payment it can only be refused by the two payment checks of claim C4, and when
  it succeeds the status is confirmed and a second identical confirm returns the same
  booking and the same store.
\<close>

theorem C7_confirm_again:
  assumes "findById (bookings st) i = Some b" and "status b = Confirmed"
  shows "confirmBooking st i None = (Inr b, st)
       \<and> (\<forall>e. fst (confirmBooking st i pId) = Inl e \<longrightarrow>
             truthyStr pId \<and> (e = PaymentNotFound \<or> e = PaymentNotSuccessful))
       \<and> (\<forall>c st'. confirmBooking st i pId = (Inr c, st') \<longrightarrow>
             status c = Confirmed \<and> findById (bookings st') i = Some c
             \<and> confirmBooking st' i pId = (Inr c, st'))"
proof (intro conjI allI impI)
  from confirmAndSave_again [OF assms] show "confirmBooking st i None = (Inr b, st)"
    by (simp add: confirmBooking_found [OF assms(1)])
next
  fix e assume "fst (confirmBooking st i pId) = Inl e"
  then show "truthyStr pId"
    by (auto simp: confirmBooking_found [OF assms(1)] confirmAndSave_def Let_def
             split: option.splits if_splits)
next
  fix e assume "fst (confirmBooking st i pId) = Inl e"
  then show "e = PaymentNotFound \<or> e = PaymentNotSuccessful"
    by (auto simp: confirmBooking_found [OF assms(1)] confirmAndSave_def Let_def
             split: option.splits if_splits)
next
  fix c st' assume r: "confirmBooking st i pId = (Inr c, st')"
  from confirmBooking_repeat [OF assms(1) r]
  show "status c = Confirmed" "findById (bookings st') i = Some c"
       "confirmBooking st' i pId = (Inr c, st')"
    by simp_all
qed

text \<open>Confirming the confirmed example booking again, without and with its payment.\<close>

theorem C7_confirm_again_witness:
  "findById (bookings exampleDb) ''b2'' = Some confirmedBooking
   \<and> status confirmedBooking = Confirmed
   \<and> confirmBooking exampleDb ''b2'' None = (Inr confirmedBooking, exampleDb)
   \<and> confirmBooking exampleDb ''b2'' (Some ''p1'') = (Inr confirmedBooking, exampleDb)"
proof -
  have s: "status confirmedBooking = Confirmed" by (simp add: confirmedBooking_def)
  from C7_confirm_again [OF confirmedBooking_found s]
  have a: "confirmBooking exampleDb ''b2'' None = (Inr confirmedBooking, exampleDb)"
    by blast
  have "confirmBooking exampleDb ''b2'' (Some ''p1'') = (Inr confirmedBooking, exampleDb)"
    by (simp add: confirmBooking_def confirmAndSave_def Let_def example_defs)
  with confirmedBooking_found s a show ?thesis by blast
qed

section \<open>Bookings that are cancelled or completed\<close>

text \<open>\<^verbatim>\<open>updateBooking\<close> refuses a booking that is cancelled or completed (line 283).\<close>

lemma updateBooking_terminal:
  assumes "findById (bookings st) i = Some b"
      and "status b = Cancelled \<or> status b = Completed"
  shows "updateBooking st i p = (Inl CannotModify, st)"
  using assms by (auto simp: updateBooking_def)

text \<open>\<^verbatim>\<open>cancelBooking\<close> refuses a booking that is cancelled (line 336).\<close>

lemma cancelBooking_cancelled:
  assumes "findById (bookings st) i = Some b" and "status b = Cancelled"
  shows "cancelBooking rt st i reason = (Inl AlreadyCancelled, st)"
  using assms by (simp add: cancelBooking_found)

text \<open>
  Claim C2 says that confirm and cancel on a cancelled or completed booking return an
  error and leave it as it is. \<^verbatim>\<open>confirmBooking\<close> has no status check and
  \<^verbatim>\<open>cancelBooking\<close> checks for cancelled only: in the example store, confirm turns the
  cancelled booking \<open>b3\<close> and the completed booking \<open>b4\<close> into confirmed ones, and cancel
  turns the completed booking \<open>b4\<close> into a cancelled one.
\<close>

theorem C2_terminal_status_is_left:
  "findById (bookings exampleDb) ''b3'' = Some cancelledBooking
   \<and> status cancelledBooking = Cancelled
   \<and> fst (confirmBooking exampleDb ''b3'' None) = Inr (cancelledBooking\<lparr>status := Confirmed\<rparr>)
   \<and> findById (bookings (snd (confirmBooking exampleDb ''b3'' None))) ''b3''
       = Some (cancelledBooking\<lparr>status := Confirmed\<rparr>)
   \<and> findById (bookings exampleDb) ''b4'' = Some completedBooking
   \<and> status completedBooking = Completed
   \<and> fst (confirmBooking exampleDb ''b4'' None) = Inr (completedBooking\<lparr>status := Confirmed\<rparr>)
   \<and> map_sum id status (fst (cancelBooking exampleRuntime exampleDb ''b4'' (Some ''rain'')))
       = Inr Cancelled"
  by (simp add: confirmBooking_def confirmAndSave_def cancelBooking_def startDateTime_def
                Let_def example_defs)

section \<open>The conflict rule\<close>

lemma div_eq_window:
  fixes x y D :: int
  assumes "0 < D"
  shows "y div D = x div D \<longleftrightarrow> x - x mod D \<le> y \<and> y < x - x mod D + D"
proof
  assume e: "y div D = x div D"
  have "y = D * (y div D) + y mod D" by simp
  moreover have "0 \<le> y mod D" "y mod D < D" using assms by simp_all
  moreover have "x - x mod D = D * (x div D)" by (simp add: minus_mod_eq_mult_div)
  ultimately show "x - x mod D \<le> y \<and> y < x - x mod D + D" using e by auto
next
  assume w: "x - x mod D \<le> y \<and> y < x - x mod D + D"
  have x: "x - x mod D = D * (x div D)" by (simp add: minus_mod_eq_mult_div)
  have "y = D * (x div D) + (y - D * (x div D))" by simp
  moreover from w x have "0 \<le> y - D * (x div D)" "y - D * (x div D) < D" by simp_all
  ultimately show "y div D = x div D" by (rule int_div_pos_eq)
qed

lemma day_window:
  "(startOfDay rt d \<le> t \<and> t < endOfDay rt d)
     \<longleftrightarrow> (sameCalendarDay rt t d \<and> t \<noteq> endOfDay rt d)"
proof -
  have "sameCalendarDay rt t d \<longleftrightarrow>
          (d + tzOffset rt) - (d + tzOffset rt) mod 86400000 \<le> t + tzOffset rt
        \<and> t + tzOffset rt < (d + tzOffset rt) - (d + tzOffset rt) mod 86400000 + 86400000"
    unfolding sameCalendarDay_def by (rule div_eq_window) simp
  also have "\<dots> \<longleftrightarrow> startOfDay rt d \<le> t \<and> t < startOfDay rt d + 86400000"
    unfolding startOfDay_def by linarith
  finally show ?thesis unfolding endOfDay_def by linarith
qed

lemma conflictingBookings_rule:
  assumes "castNumber rt slot = Some n" and "dateParse rt bDate = Some d"
  shows "\<exists>cs. conflictingBookings rt bs gId slot bDate sTime eTime = Some cs
       \<and> (\<forall>b. b \<in> set cs \<longleftrightarrow>
              b \<in> set bs \<and> groundId b = gId \<and> groundSlot b = n
              \<and> startOfDay rt d \<le> bookingDate b \<and> bookingDate b < endOfDay rt d
              \<and> status b \<noteq> Cancelled
              \<and> strLess (startTime b) eTime \<and> strLess sTime (endTime b))"
  using assms by (auto simp: conflictingBookings_def)

lemma conflictingBookings_same_day:
  assumes "castNumber rt slot = Some n" and "dateParse rt bDate = Some d"
      and "conflictingBookings rt bs gId slot bDate sTime eTime = Some cs"
      and "bookingDate b \<noteq> endOfDay rt d"
  shows "b \<in> set cs \<longleftrightarrow>
           b \<in> set bs \<and> groundId b = gId \<and> groundSlot b = n
           \<and> sameCalendarDay rt (bookingDate b) d
           \<and> status b \<noteq> Cancelled
           \<and> strLess (startTime b) eTime \<and> strLess sTime (endTime b)"
proof -
  from conflictingBookings_rule [OF assms(1,2), of bs gId sTime eTime] assms(3)
  have "b \<in> set cs \<longleftrightarrow>
              b \<in> set bs \<and> groundId b = gId \<and> groundSlot b = n
              \<and> (startOfDay rt d \<le> bookingDate b \<and> bookingDate b < endOfDay rt d)
              \<and> status b \<noteq> Cancelled
              \<and> strLess (startTime b) eTime \<and> strLess sTime (endTime b)"
    by simp
  with day_window [of rt d "bookingDate b"] assms(4) show ?thesis by simp
qed

lemma conflictingBookings_touching:
  assumes "conflictingBookings rt bs gId slot bDate sTime eTime = Some cs"
      and "startTime b = eTime \<or> endTime b = sTime"
  shows "b \<notin> set cs"
  using assms strLess_irrefl
  by (auto simp: conflictingBookings_def split: option.splits)

lemma createChecked_conflict:
  assumes "conflictingBookings rt (bookings st) gId
             (jsOr (req_groundSlot body) (JNum (Fin 1))) bDate sTime eTime = Some cs"
  shows "(cs \<noteq> [] \<longrightarrow>
            (\<exists>err. createChecked rt st body cId gId bDate sTime eTime = (Inl err, st)
               \<and> (users st (customerId (hd cs)) \<noteq> None \<longrightarrow>
                    (\<exists>x. err = SlotConflict sTime eTime x
                        \<and> eb_startTime x = startTime (hd cs)
                        \<and> eb_endTime x = endTime (hd cs)))))
       \<and> (cs = [] \<longrightarrow>
            (\<forall>x y z. fst (createChecked rt st body cId gId bDate sTime eTime)
                       \<noteq> Inl (SlotConflict x y z)))"
proof (cases cs)
  case Nil
  with assms show ?thesis
    by (auto simp: createChecked_def Let_def split: option.splits if_splits)
next
  case (Cons c cs')
  with assms show ?thesis
    by (auto simp: createChecked_def customerDisplayName_def split: option.splits)
qed

lemma conflictDetails_ids:
  "conflictDetails st cs = Some ds \<Longrightarrow> map cd_bookingId ds = map bookingId cs"
  by (induction cs arbitrary: ds) (auto split: option.splits)

lemma conflictDetails_resolves:
  "\<forall>b\<in>set cs. users st (customerId b) \<noteq> None \<Longrightarrow> \<exists>ds. conflictDetails st cs = Some ds"
  by (induction cs) (auto simp: customerDisplayName_def split: option.splits)

lemma checkGroundAvailability_asked:
  assumes "asksAvailability q gId bDate sTime eTime"
  shows "checkGroundAvailability rt st q =
           (case conflictingBookings rt (bookings st) gId
                     (slotOr (q_groundSlot q) (JNum (Fin 1))) bDate sTime eTime of
                None \<Rightarrow> Inl (InternalError ''Error checking ground availability'')
              | Some cs \<Rightarrow>
                  if cs = [] then Inr Available
                  else
                    (case conflictDetails st cs of
                       None \<Rightarrow> Inl (InternalError ''Error checking ground availability'')
                     | Some ds \<Rightarrow> Inr (Unavailable ds)))"
  using assms by (simp add: asksAvailability_def checkGroundAvailability_def)

lemma checkGroundAvailability_conflict:
  assumes "asksAvailability q gId bDate sTime eTime"
      and "conflictingBookings rt (bookings st) gId
             (slotOr (q_groundSlot q) (JNum (Fin 1))) bDate sTime eTime = Some cs"
  shows "(cs = [] \<longrightarrow> checkGroundAvailability rt st q = Inr Available)
       \<and> (cs \<noteq> [] \<longrightarrow> checkGroundAvailability rt st q \<noteq> Inr Available)
       \<and> (\<forall>ds. checkGroundAvailability rt st q = Inr (Unavailable ds) \<longrightarrow>
                map cd_bookingId ds = map bookingId cs)
       \<and> (cs \<noteq> [] \<and> (\<forall>b\<in>set cs. users st (customerId b) \<noteq> None) \<longrightarrow>
             (\<exists>ds. checkGroundAvailability rt st q = Inr (Unavailable ds)))"
proof (intro conjI impI allI)
  assume "cs = []"
  with assms(2) show "checkGroundAvailability rt st q = Inr Available"
    by (simp add: checkGroundAvailability_asked [OF assms(1)])
next
  assume "cs \<noteq> []"
  with assms(2) show "checkGroundAvailability rt st q \<noteq> Inr Available"
    by (simp add: checkGroundAvailability_asked [OF assms(1)] split: option.splits)
next
  fix ds assume "checkGroundAvailability rt st q = Inr (Unavailable ds)"
  with assms(2) have "conflictDetails st cs = Some ds"
    by (simp add: checkGroundAvailability_asked [OF assms(1)] split: option.splits if_splits)
  then show "map cd_bookingId ds = map bookingId cs" by (rule conflictDetails_ids)
next
  assume a: "cs \<noteq> [] \<and> (\<forall>b\<in>set cs. users st (customerId b) \<noteq> None)"
  then obtain ds where "conflictDetails st cs = Some ds"
    using conflictDetails_resolves by blast
  with a assms(2) show "\<exists>ds. checkGroundAvailability rt st q = Inr (Unavailable ds)"
    by (simp add: checkGroundAvailability_asked [OF assms(1)])
qed

lemma createBooking_reaches:
  assumes "reachesConflictQuery st body cId gId bDate sTime eTime"
  shows "createBooking rt st body = createChecked rt st body cId gId bDate sTime eTime"
proof -
  from assms obtain gr u where "grounds st gId = Some gr" "users st cId = Some u"
    by (auto simp: reachesConflictQuery_def)
  with assms show ?thesis
    by (intro createBooking_checked) (simp_all add: reachesConflictQuery_def)
qed


text \<open>
  Claim C1, as amended. Both endpoints send the same query, with the slot
  \<^verbatim>\<open>groundSlot || 1\<close>: the supplied slot when it is truthy, and 1 otherwise (absent, 0
  or empty). When the store accepts the query, a booking whose bookingDate is not the
  last millisecond of the requested day is returned exactly when it is stored, has the
  requested groundId and that slot, has its bookingDate on the same calendar day, is not
  cancelled, starts before the requested end and ends after the requested start. A
  booking that starts where the request ends, or ends where it starts, is never
  returned. The availability endpoint answers available exactly when nothing is
  returned and otherwise lists the returned bookings; a create request is refused, with
  the store as it was, when something is returned (with the conflict answer when the
  first returned booking's customer resolves), and is not refused for a conflict when
  nothing is.
\<close>

theorem C1_conflict_rule:
  assumes "castNumber rt slot = Some n" and "dateParse rt bDate = Some d"
  shows "\<exists>cs. conflictingBookings rt (bookings st) gId slot bDate sTime eTime = Some cs
       \<and> (\<forall>b. bookingDate b \<noteq> endOfDay rt d \<longrightarrow>
             (b \<in> set cs \<longleftrightarrow>
                b \<in> set (bookings st) \<and> groundId b = gId \<and> groundSlot b = n
                \<and> sameCalendarDay rt (bookingDate b) d
                \<and> status b \<noteq> Cancelled
                \<and> strLess (startTime b) eTime \<and> strLess sTime (endTime b)))
       \<and> (\<forall>b. startTime b = eTime \<or> endTime b = sTime \<longrightarrow> b \<notin> set cs)
       \<and> (asksAvailability q gId bDate sTime eTime
            \<and> slot = slotOr (q_groundSlot q) (JNum (Fin 1)) \<longrightarrow>
              (cs = [] \<longrightarrow> checkGroundAvailability rt st q = Inr Available)
            \<and> (cs \<noteq> [] \<longrightarrow> checkGroundAvailability rt st q \<noteq> Inr Available)
            \<and> (\<forall>ds. checkGroundAvailability rt st q = Inr (Unavailable ds) \<longrightarrow>
                    map cd_bookingId ds = map bookingId cs)
            \<and> (cs \<noteq> [] \<and> (\<forall>b\<in>set cs. users st (customerId b) \<noteq> None) \<longrightarrow>
                 (\<exists>ds. checkGroundAvailability rt st q = Inr (Unavailable ds))))
       \<and> (reachesConflictQuery st body cId gId bDate sTime eTime
            \<and> slot = jsOr (req_groundSlot body) (JNum (Fin 1)) \<longrightarrow>
              (cs \<noteq> [] \<longrightarrow>
                 (\<exists>err. createBooking rt st body = (Inl err, st)
                    \<and> (users st (customerId (hd cs)) \<noteq> None \<longrightarrow>
                         (\<exists>x. err = SlotConflict sTime eTime x
                             \<and> eb_startTime x = startTime (hd cs)
                             \<and> eb_endTime x = endTime (hd cs)))))
            \<and> (cs = [] \<longrightarrow>
                 (\<forall>x y z. fst (createBooking rt st body) \<noteq> Inl (SlotConflict x y z))))"
proof -
  from conflictingBookings_rule [OF assms, of "bookings st" gId sTime eTime]
  obtain cs where cs: "conflictingBookings rt (bookings st) gId slot bDate sTime eTime = Some cs"
    by blast
  have rule: "\<forall>b. bookingDate b \<noteq> endOfDay rt d \<longrightarrow>
             (b \<in> set cs \<longleftrightarrow>
                b \<in> set (bookings st) \<and> groundId b = gId \<and> groundSlot b = n
                \<and> sameCalendarDay rt (bookingDate b) d
                \<and> status b \<noteq> Cancelled
                \<and> strLess (startTime b) eTime \<and> strLess sTime (endTime b))"
    using conflictingBookings_same_day [OF assms cs] by blast
  have touch: "\<forall>b. startTime b = eTime \<or> endTime b = sTime \<longrightarrow> b \<notin> set cs"
    using conflictingBookings_touching [OF cs] by blast
  have avail: "asksAvailability q gId bDate sTime eTime
            \<and> slot = slotOr (q_groundSlot q) (JNum (Fin 1)) \<longrightarrow>
              (cs = [] \<longrightarrow> checkGroundAvailability rt st q = Inr Available)
            \<and> (cs \<noteq> [] \<longrightarrow> checkGroundAvailability rt st q \<noteq> Inr Available)
            \<and> (\<forall>ds. checkGroundAvailability rt st q = Inr (Unavailable ds) \<longrightarrow>
                    map cd_bookingId ds = map bookingId cs)
            \<and> (cs \<noteq> [] \<and> (\<forall>b\<in>set cs. users st (customerId b) \<noteq> None) \<longrightarrow>
                 (\<exists>ds. checkGroundAvailability rt st q = Inr (Unavailable ds)))"
  proof
    assume a: "asksAvailability q gId bDate sTime eTime
            \<and> slot = slotOr (q_groundSlot q) (JNum (Fin 1))"
    with cs have "conflictingBookings rt (bookings st) gId
             (slotOr (q_groundSlot q) (JNum (Fin 1))) bDate sTime eTime = Some cs" by simp
    from checkGroundAvailability_conflict [OF conjunct1 [OF a] this]
    show "(cs = [] \<longrightarrow> checkGroundAvailability rt st q = Inr Available)
            \<and> (cs \<noteq> [] \<longrightarrow> checkGroundAvailability rt st q \<noteq> Inr Available)
            \<and> (\<forall>ds. checkGroundAvailability rt st q = Inr (Unavailable ds) \<longrightarrow>
                    map cd_bookingId ds = map bookingId cs)
            \<and> (cs \<noteq> [] \<and> (\<forall>b\<in>set cs. users st (customerId b) \<noteq> None) \<longrightarrow>
                 (\<exists>ds. checkGroundAvailability rt st q = Inr (Unavailable ds)))" .
  qed
  have create: "reachesConflictQuery st body cId gId bDate sTime eTime
            \<and> slot = jsOr (req_groundSlot body) (JNum (Fin 1)) \<longrightarrow>
              (cs \<noteq> [] \<longrightarrow>
                 (\<exists>err. createBooking rt st body = (Inl err, st)
                    \<and> (users st (customerId (hd cs)) \<noteq> None \<longrightarrow>
                         (\<exists>x. err = SlotConflict sTime eTime x
                             \<and> eb_startTime x = startTime (hd cs)
                             \<and> eb_endTime x = endTime (hd cs)))))
            \<and> (cs = [] \<longrightarrow>
                 (\<forall>x y z. fst (createBooking rt st body) \<noteq> Inl (SlotConflict x y z)))"
  proof
    assume a: "reachesConflictQuery st body cId gId bDate sTime eTime
            \<and> slot = jsOr (req_groundSlot body) (JNum (Fin 1))"
    with cs have q: "conflictingBookings rt (bookings st) gId
             (jsOr (req_groundSlot body) (JNum (Fin 1))) bDate sTime eTime = Some cs" by simp
    from createBooking_reaches [OF conjunct1 [OF a], of rt]
    have e: "createBooking rt st body = createChecked rt st body cId gId bDate sTime eTime" .
    from createChecked_conflict [OF q, of cId]
    show "(cs \<noteq> [] \<longrightarrow>
                 (\<exists>err. createBooking rt st body = (Inl err, st)
                    \<and> (users st (customerId (hd cs)) \<noteq> None \<longrightarrow>
                         (\<exists>x. err = SlotConflict sTime eTime x
                             \<and> eb_startTime x = startTime (hd cs)
                             \<and> eb_endTime x = endTime (hd cs)))))
            \<and> (cs = [] \<longrightarrow>
                 (\<forall>x y z. fst (createBooking rt st body) \<noteq> Inl (SlotConflict x y z)))"
      unfolding e .
  qed
  from cs rule touch avail create show ?thesis by blast
qed


text \<open>
  The example request ends at 09:30, where the pending booking starts: the availability
  query is answered available and the create request is not refused for a conflict
  (it is stored, as the example of claim C6 shows).
\<close>

lemma exampleQuery_asks: "asksAvailability exampleQuery ''g1'' ''2030-01-05'' ''08:30'' ''09:30''"
  by (simp add: asksAvailability_def exampleQuery_def)

lemma exampleBody_reaches:
  "reachesConflictQuery exampleDb exampleBody ''u1'' ''g1'' ''2030-01-05'' ''08:30'' ''09:30''"
  by (simp add: reachesConflictQuery_def exampleBody_def exampleDb_def)

lemma example_no_conflict:
  "conflictingBookings exampleRuntime (bookings exampleDb) ''g1'' v
     ''2030-01-05'' ''08:30'' ''09:30''
   = (case exampleCastNumber v of None \<Rightarrow> None | Some n \<Rightarrow> Some [])"
  by (simp add: conflictingBookings_def startOfDay_def endOfDay_def example_defs
           split: option.splits)

theorem C1_conflict_rule_witness:
  "castNumber exampleRuntime (JStr ''1'') = Some 1
   \<and> castNumber exampleRuntime (JNum (Fin 1)) = Some 1
   \<and> dateParse exampleRuntime ''2030-01-05'' = Some 1893801600000
   \<and> pendingBooking \<in> set (bookings exampleDb)
   \<and> groundId pendingBooking = ''g1'' \<and> groundSlot pendingBooking = 1
   \<and> bookingDate pendingBooking = 1893801600000
   \<and> startTime pendingBooking = ''09:30''
   \<and> asksAvailability exampleQuery ''g1'' ''2030-01-05'' ''08:30'' ''09:30''
   \<and> slotOr (q_groundSlot exampleQuery) (JNum (Fin 1)) = JStr ''1''
   \<and> checkGroundAvailability exampleRuntime exampleDb exampleQuery = Inr Available
   \<and> reachesConflictQuery exampleDb exampleBody ''u1'' ''g1'' ''2030-01-05'' ''08:30'' ''09:30''
   \<and> jsOr (req_groundSlot exampleBody) (JNum (Fin 1)) = JNum (Fin 1)
   \<and> fst (createBooking exampleRuntime exampleDb exampleBody)
        \<noteq> Inl (SlotConflict ''08:30'' ''09:30''
                  \<lparr>eb_startTime = ''09:30'', eb_endTime = ''10:30'',
                    eb_bookingType = ''practice'', bookedBy = ''Ann Lee''\<rparr>)"
proof -
  have c1: "castNumber exampleRuntime (JStr ''1'') = Some 1"
    and c2: "castNumber exampleRuntime (JNum (Fin 1)) = Some 1"
    and d: "dateParse exampleRuntime ''2030-01-05'' = Some 1893801600000"
    by (simp_all add: exampleRuntime_def exampleDateParse_def)
  have p: "pendingBooking \<in> set (bookings exampleDb)" "groundId pendingBooking = ''g1''"
    "groundSlot pendingBooking = 1" "bookingDate pendingBooking = 1893801600000"
    "startTime pendingBooking = ''09:30''"
    by (simp_all add: exampleDb_def pendingBooking_def)
  have s1: "slotOr (q_groundSlot exampleQuery) (JNum (Fin 1)) = JStr ''1''"
    by (simp add: exampleQuery_def)
  have s2: "jsOr (req_groundSlot exampleBody) (JNum (Fin 1)) = JNum (Fin 1)"
    by (simp add: exampleBody_def jsOr_def)
  have n1: "conflictingBookings exampleRuntime (bookings exampleDb) ''g1'' (JStr ''1'')
              ''2030-01-05'' ''08:30'' ''09:30'' = Some []"
    and n2: "conflictingBookings exampleRuntime (bookings exampleDb) ''g1'' (JNum (Fin 1))
              ''2030-01-05'' ''08:30'' ''09:30'' = Some []"
    by (simp_all add: example_no_conflict)
  from C1_conflict_rule [OF c1 d, of exampleDb "''g1''" "''08:30''" "''09:30''" exampleQuery]
       n1 s1 exampleQuery_asks
  have a: "checkGroundAvailability exampleRuntime exampleDb exampleQuery = Inr Available"
    by auto
  from C1_conflict_rule [OF c2 d, of exampleDb "''g1''" "''08:30''" "''09:30''" _ exampleBody "''u1''"]
       n2 s2 exampleBody_reaches
  have b: "fst (createBooking exampleRuntime exampleDb exampleBody)
        \<noteq> Inl (SlotConflict ''08:30'' ''09:30''
                  \<lparr>eb_startTime = ''09:30'', eb_endTime = ''10:30'',
                    eb_bookingType = ''practice'', bookedBy = ''Ann Lee''\<rparr>)"
    by auto
  from c1 c2 d p s1 s2 a b exampleQuery_asks exampleBody_reaches show ?thesis by blast
qed

text \<open>
  The claim as stated takes the slot of a request to be its groundSlot unless that is
  absent. The request \<open>slotZeroBody\<close> supplies groundSlot 0; no stored booking has slot
  0, so no booking conflicts in the claim's sense, and yet the request is refused for a
  conflict with the pending booking of slot 1.
\<close>

theorem C1_slot_zero_counterexample:
  "req_groundSlot slotZeroBody = JNum (Fin 0)
   \<and> claimedSlot exampleRuntime (req_groundSlot slotZeroBody) = Some 0
   \<and> filter (claimedConflict exampleRuntime ''g1'' (req_groundSlot slotZeroBody)
               1893801600000 ''10:00'' ''11:00'') (bookings exampleDb) = []
   \<and> createBooking exampleRuntime exampleDb slotZeroBody
       = (Inl (SlotConflict ''10:00'' ''11:00''
                 \<lparr>eb_startTime = ''09:30'', eb_endTime = ''10:30'',
                   eb_bookingType = ''practice'', bookedBy = ''Ann Lee''\<rparr>), exampleDb)"
  by (simp add: slotZeroBody_def claimedConflict_def claimedSlot_def sameCalendarDay_def
        createBooking_def createChecked_def conflictingBookings_def customerDisplayName_def
        jsOr_def startOfDay_def endOfDay_def example_defs)

text \<open>
  The example of section 8 of the specification: 10:00 to 11:00 against the stored 09:30
  to 10:30 is reported as a conflict.
\<close>

lemma overlap_example:
  "checkGroundAvailability exampleRuntime exampleDb
     (exampleQuery\<lparr>q_startTime := Some ''10:00'', q_endTime := Some ''11:00''\<rparr>)
   = Inr (Unavailable [\<lparr>cd_bookingId = ''b1'', customerName = ''Ann Lee'',
                         cd_startTime = ''09:30'', cd_endTime = ''10:30'',
                         cd_bookingType = ''practice'', cd_status = Pending\<rparr>])"
  by (simp add: checkGroundAvailability_def conflictingBookings_def customerDisplayName_def
        startOfDay_def endOfDay_def example_defs)

end
